theory Spec2Isabelle
  imports Main "HOL-Library.Log_Nat"
begin

section \<open>Errors\<close>

text \<open>
  The Python exceptions that the modelled code paths can raise. A function of the source
  that can raise returns \<open>error + 'a\<close>, with \<open>Inl\<close> the exception.
\<close>

datatype error =
    FileNotFoundError     \<comment> \<open>\<open>os.listdir\<close> of a path that does not exist\<close>
  | NotADirectoryError    \<comment> \<open>\<open>os.listdir\<close> of a path that is a file\<close>
  | CvError               \<comment> \<open>\<open>cv2.error\<close>: \<open>cv2.resize\<close> of an image that failed to decode\<close>
  | ValueError            \<comment> \<open>\<open>int(nan)\<close>, \<open>random_split\<close>, \<open>plt.plot\<close>\<close>
  | OverflowError         \<comment> \<open>\<open>int(inf)\<close>\<close>
  | RuntimeError          \<comment> \<open>a tensor shape that a layer of the network rejects\<close>

section \<open>The labelled image dataset (class T2RDataset)\<close>

subsection \<open>Label derivation\<close>

text \<open>
  \<open>str.split(sep)\<close> for a one-character separator: the maximal pieces between the
  occurrences of \<open>sep\<close>; the result is never empty (\<open>''.split('-') == ['']\<close>).
\<close>

fun py_split :: "char \<Rightarrow> string \<Rightarrow> string list" where
  "py_split sep [] = [[]]"
| "py_split sep (c # cs) =
     (if c = sep then [] # py_split sep cs
      else (case py_split sep cs of
              [] \<Rightarrow> [[c]]
            | w # ws \<Rightarrow> (c # w) # ws))"

text \<open>
  \<open>self.color_mapping = {'blue': 1, 'black': 2, 'green': 3, 'red': 4, 'yellow': 5}\<close>
\<close>

definition color_mapping :: "string \<rightharpoonup> int" where
  "color_mapping =
     map_of [(''blue'', 1), (''black'', 2), (''green'', 3), (''red'', 4), (''yellow'', 5)]"

text \<open>\<open>d.get(key, default)\<close> of a dictionary.\<close>

definition dict_get :: "('k \<rightharpoonup> 'v) \<Rightarrow> 'k \<Rightarrow> 'v \<Rightarrow> 'v" where
  "dict_get d k dflt = (case d k of None \<Rightarrow> dflt | Some v \<Rightarrow> v)"

text \<open>
  The two statements that both loaders run for a file:
  \<open>label = filename.split('-')[0]\<close> and \<open>self.color_mapping.get(label, 0)\<close>.
  The index \<open>[0]\<close> is \<open>hd\<close>; \<open>py_split\<close> never returns the empty list
  (lemma \<open>py_split_not_Nil\<close>).
\<close>

definition filename_label :: "string \<Rightarrow> string" where
  "filename_label filename = hd (py_split CHR ''-'' filename)"

definition target_of :: "string \<Rightarrow> int" where
  "target_of filename = dict_get color_mapping (filename_label filename) 0"

subsection \<open>Images and the image libraries\<close>

text \<open>
  Pixel arrays are values of an abstract type \<open>'img\<close>. The functions of OpenCV, SciPy and
  NumPy that the loaders call are parameters of the model:
  \<^item> \<open>cv2_resize img (width, height)\<close> is \<open>cv2.resize(img, (width, height))\<close>;
  \<^item> \<open>ndimage_rotate img angle\<close> is \<open>scipy.ndimage.rotate(img, angle, reshape=False)\<close>;
  \<^item> \<open>shape img\<close> is the attribute \<open>img.shape\<close>.
\<close>

record 'img imglib =
  cv2_resize :: "'img \<Rightarrow> nat \<times> nat \<Rightarrow> 'img"
  ndimage_rotate :: "'img \<Rightarrow> int \<Rightarrow> 'img"
  shape :: "'img \<Rightarrow> nat list"

text \<open>
  What the libraries document about shapes: \<open>cv2.resize\<close> returns an array of
  \<open>height\<close> rows and \<open>width\<close> columns with the channels of its input, and
  \<open>rotate(..., reshape=False)\<close> returns an array of the shape of its input.
\<close>

definition shape_contract :: "'img imglib \<Rightarrow> bool" where
  "shape_contract lib \<longleftrightarrow>
     (\<forall>img w h. shape lib (cv2_resize lib img (w, h)) = [h, w] @ drop 2 (shape lib img)) \<and>
     (\<forall>img angle. shape lib (ndimage_rotate lib img angle) = shape lib img)"

text \<open>
  \<open>cv2.imread(path)\<close> with its default flag decodes to three colour channels: an array
  of shape \<open>(rows, columns, 3)\<close>.
\<close>

definition bgr_image :: "'img imglib \<Rightarrow> 'img \<Rightarrow> bool" where
  "bgr_image lib img \<longleftrightarrow> length (shape lib img) = 3 \<and> shape lib img ! 2 = 3"

subsection \<open>The directory tree\<close>

text \<open>
  A node of the file system under \<open>root_dir\<close>: a file that decodes to an image, any other
  file, or a folder with its entries in the order \<open>os.listdir\<close> returns them.
\<close>

datatype 'img fsnode =
    ImageFile 'img
  | OtherFile
  | Folder "(string \<times> 'img fsnode) list"

text \<open>
  \<open>os.listdir(path)\<close>; \<open>None\<close> is a path at which nothing exists.
\<close>

fun os_listdir :: "'img fsnode option \<Rightarrow> error + (string \<times> 'img fsnode) list" where
  "os_listdir None = Inl FileNotFoundError"
| "os_listdir (Some (Folder entries)) = Inr entries"
| "os_listdir (Some _) = Inl NotADirectoryError"

text \<open>
  \<open>cv2.imread(path)\<close> returns \<open>None\<close>, without raising, for anything that does not
  decode.
\<close>

fun cv2_imread :: "'img fsnode \<Rightarrow> 'img option" where
  "cv2_imread (ImageFile img) = Some img"
| "cv2_imread _ = None"

subsection \<open>Loading\<close>

text \<open>
  The two lists that \<open>__init__\<close> creates empty and the loaders append to.
\<close>

record 'img t2rdataset =
  data :: "'img list"
  targets :: "int list"

definition empty_dataset :: "'img t2rdataset" where
  "empty_dataset = \<lparr>data = [], targets = []\<rparr>"

text \<open>
  One iteration of the loop \<open>for rotation_angle in [0, 90, 180, 270]\<close> of
  \<open>load_station_image\<close>.
\<close>

definition append_rotation ::
  "'img imglib \<Rightarrow> 'img \<Rightarrow> string \<Rightarrow> 'img t2rdataset \<Rightarrow> int \<Rightarrow> 'img t2rdataset" where
  "append_rotation lib resized_image filename self rotation_angle =
     (let rotated_image = ndimage_rotate lib resized_image rotation_angle;
          label = filename_label filename
      in self\<lparr>data := data self @ [rotated_image],
              targets := targets self @ [dict_get color_mapping label 0]\<rparr>)"

text \<open>
  \<open>load_station_image\<close>. \<open>cv2.resize\<close> raises \<open>cv2.error\<close> when \<open>cv2.imread\<close>
  returned \<open>None\<close>.
\<close>

definition load_station_image ::
  "'img imglib \<Rightarrow> 'img t2rdataset \<Rightarrow> 'img option \<Rightarrow> string \<Rightarrow> error + 'img t2rdataset" where
  "load_station_image lib self original_image filename =
     (case original_image of
        None \<Rightarrow> Inl CvError
      | Some img \<Rightarrow>
          (let desired_height = 100; desired_width = 100;
               resized_image = cv2_resize lib img (desired_width, desired_height)
           in Inr (foldl (append_rotation lib resized_image filename) self [0, 90, 180, 270])))"

definition load_train_image ::
  "'img imglib \<Rightarrow> 'img t2rdataset \<Rightarrow> 'img option \<Rightarrow> string \<Rightarrow> error + 'img t2rdataset" where
  "load_train_image lib self original_image filename =
     (case original_image of
        None \<Rightarrow> Inl CvError
      | Some img \<Rightarrow>
          (let desired_height = 50; desired_width = 125;
               image = cv2_resize lib img (desired_width, desired_height);
               label = filename_label filename
           in Inr (self\<lparr>data := data self @ [image],
                         targets := targets self @ [dict_get color_mapping label 0]\<rparr>)))"

text \<open>
  The inner loop of \<open>load_data\<close>, over the entries of one folder. A file named
  \<open>.DS_Store\<close> is skipped; for any other entry the image is read and handed to the loader
  of the entity type; a \<open>dtype\<close> that is neither \<open>'station'\<close> nor \<open>'train'\<close> falls through
  the \<open>if\<close>/\<open>elif\<close> and nothing is appended.
\<close>

fun load_files ::
  "'img imglib \<Rightarrow> string \<Rightarrow> 'img t2rdataset \<Rightarrow> (string \<times> 'img fsnode) list
     \<Rightarrow> error + 'img t2rdataset" where
  "load_files lib dtype self [] = Inr self"
| "load_files lib dtype self ((filename, node) # rest) =
     (if filename \<noteq> ''.DS_Store'' then
        (let original_image = cv2_imread node in
         if dtype = ''station'' then
           (case load_station_image lib self original_image filename of
              Inl e \<Rightarrow> Inl e
            | Inr self' \<Rightarrow> load_files lib dtype self' rest)
         else if dtype = ''train'' then
           (case load_train_image lib self original_image filename of
              Inl e \<Rightarrow> Inl e
            | Inr self' \<Rightarrow> load_files lib dtype self' rest)
         else load_files lib dtype self rest)
      else load_files lib dtype self rest)"

text \<open>The outer loop of \<open>load_data\<close>, over the entries of \<open>root_dir\<close>.\<close>

fun load_folders ::
  "'img imglib \<Rightarrow> string \<Rightarrow> 'img t2rdataset \<Rightarrow> (string \<times> 'img fsnode) list
     \<Rightarrow> error + 'img t2rdataset" where
  "load_folders lib dtype self [] = Inr self"
| "load_folders lib dtype self ((folder, node) # rest) =
     (if folder \<noteq> ''.DS_Store'' then
        (case os_listdir (Some node) of
           Inl e \<Rightarrow> Inl e
         | Inr files \<Rightarrow>
             (case load_files lib dtype self files of
                Inl e \<Rightarrow> Inl e
              | Inr self' \<Rightarrow> load_folders lib dtype self' rest))
      else load_folders lib dtype self rest)"

definition load_data ::
  "'img imglib \<Rightarrow> 'img fsnode option \<Rightarrow> string \<Rightarrow> 'img t2rdataset \<Rightarrow> error + 'img t2rdataset" where
  "load_data lib root_dir dtype self =
     (case os_listdir root_dir of
        Inl e \<Rightarrow> Inl e
      | Inr folders \<Rightarrow> load_folders lib dtype self folders)"

text \<open>
  The constructor \<open>T2RDataset(root_dir, transform, dtype)\<close>. The transform is stored and
  applied by \<open>__getitem__\<close> only, so it plays no part in what is loaded.
\<close>

definition T2RDataset :: "'img imglib \<Rightarrow> 'img fsnode option \<Rightarrow> string \<Rightarrow> error + 'img t2rdataset" where
  "T2RDataset lib root_dir dtype = load_data lib root_dir dtype empty_dataset"

text \<open>\<open>__len__\<close>\<close>

definition len :: "'img t2rdataset \<Rightarrow> nat" where
  "len self = length (data self)"

subsection \<open>What a traversal visits\<close>

text \<open>
  The entries that the test \<open>!= '.DS_Store'\<close> lets through, and the files that the two
  nested loops reach: the entries so kept of every folder so kept.
\<close>

definition not_skipped :: "(string \<times> 'a) list \<Rightarrow> (string \<times> 'a) list" where
  "not_skipped entries = filter (\<lambda>(name, _). name \<noteq> ''.DS_Store'') entries"

fun folder_entries :: "'img fsnode \<Rightarrow> (string \<times> 'img fsnode) list" where
  "folder_entries (Folder files) = files"
| "folder_entries _ = []"

definition visited_files :: "(string \<times> 'img fsnode) list \<Rightarrow> (string \<times> 'img fsnode) list" where
  "visited_files folders =
     concat (map (\<lambda>(folder, node). not_skipped (folder_entries node)) (not_skipped folders))"

fun is_folder :: "'img fsnode \<Rightarrow> bool" where
  "is_folder (Folder files) = True"
| "is_folder _ = False"

definition decodes :: "'img fsnode \<Rightarrow> bool" where
  "decodes node \<longleftrightarrow> cv2_imread node \<noteq> None"

text \<open>The images and the targets that one visited file adds, per entity type.\<close>

definition station_images :: "'img imglib \<Rightarrow> 'img fsnode \<Rightarrow> 'img list" where
  "station_images lib node =
     (case cv2_imread node of
        None \<Rightarrow> []
      | Some img \<Rightarrow> map (ndimage_rotate lib (cv2_resize lib img (100, 100))) [0, 90, 180, 270])"

definition train_images :: "'img imglib \<Rightarrow> 'img fsnode \<Rightarrow> 'img list" where
  "train_images lib node =
     (case cv2_imread node of
        None \<Rightarrow> []
      | Some img \<Rightarrow> [cv2_resize lib img (125, 50)])"

definition file_images :: "'img imglib \<Rightarrow> string \<Rightarrow> 'img fsnode \<Rightarrow> 'img list" where
  "file_images lib dtype node =
     (if dtype = ''station'' then station_images lib node
      else if dtype = ''train'' then train_images lib node
      else [])"

definition file_targets :: "string \<Rightarrow> string \<Rightarrow> int list" where
  "file_targets dtype filename =
     (if dtype = ''station'' then replicate 4 (target_of filename)
      else if dtype = ''train'' then [target_of filename]
      else [])"

definition reads_images :: "string \<Rightarrow> bool" where
  "reads_images dtype \<longleftrightarrow> dtype = ''station'' \<or> dtype = ''train''"

subsection \<open>Hidden entries as the specification words them\<close>

text \<open>
  The specification speaks of hidden OS artifact entries. An entry is hidden when its name
  begins with a dot; \<open>.DS_Store\<close> is one such name among many. This notion is compared
  below with the test that the code makes, which is on the one name \<open>.DS_Store\<close>.
\<close>

definition is_hidden :: "string \<Rightarrow> bool" where
  "is_hidden name \<longleftrightarrow> (case name of [] \<Rightarrow> False | c # _ \<Rightarrow> c = CHR ''.'')"

subsection \<open>The label table as the specification words it\<close>

text \<open>
  The closed enumeration of the specification: \<open>unknown=0, blue=1, black=2, green=3, red=4,
  yellow=5\<close>, looked up by exact, case-sensitive match. It is compared below with what
  the loaders compute.
\<close>

definition spec_label_id :: "string \<Rightarrow> int" where
  "spec_label_id label =
     (if label = ''blue'' then 1
      else if label = ''black'' then 2
      else if label = ''green'' then 3
      else if label = ''red'' then 4
      else if label = ''yellow'' then 5
      else 0)"

subsection \<open>A small image library and directory for concrete runs\<close>

text \<open>
  An image reduced to its shape and the angle it has been turned by; the three library
  functions act on the shape as documented.
\<close>

definition shape_lib :: "(nat list \<times> int) imglib" where
  "shape_lib =
     \<lparr>cv2_resize = (\<lambda>(shp, turned) (w, h). ([h, w] @ drop 2 shp, turned)),
      ndimage_rotate = (\<lambda>(shp, turned) angle. (shp, (turned + angle) mod 360)),
      shape = fst\<rparr>"

definition photo :: "(nat list \<times> int) fsnode" where
  "photo = ImageFile ([480, 640, 3], 0)"

text \<open>
  Two further directories: one whose only file is a hidden image, and one whose only file
  is the thumbnail cache that Windows leaves in a folder, which does not decode.
\<close>

definition hidden_image_root :: "(nat list \<times> int) fsnode option" where
  "hidden_image_root = Some (Folder [(''session1'', Folder [(''.red-1.png'', photo)])])"

definition thumbs_root :: "(nat list \<times> int) fsnode option" where
  "thumbs_root = Some (Folder [(''session1'', Folder [(''Thumbs.db'', OtherFile)])])"

definition sample_root :: "(nat list \<times> int) fsnode option" where
  "sample_root =
     Some (Folder
       [(''.DS_Store'', OtherFile),
        (''session1'', Folder [(''red-1.png'', photo), (''.DS_Store'', OtherFile)]),
        (''session2'', Folder [(''foo-1.png'', photo), (''Blue-2.png'', photo)])])"

section \<open>Python floats\<close>

text \<open>
  A Python \<open>float\<close> is an IEEE 754 binary64 number. \<open>Finite m e\<close> denotes the number
  \<open>m * 2 ^ e\<close>; every finite double can be written so with \<open>\<bar>m\<bar> < 2 ^ 53\<close> and
  \<open>- 1074 \<le> e \<le> 971\<close>. The sign of a zero is not represented: no operation modelled
  here distinguishes \<open>0.0\<close> from \<open>-0.0\<close>.
\<close>

datatype pyfloat = Finite int int | PosInf | NegInf | NaN

fun is_double :: "pyfloat \<Rightarrow> bool" where
  "is_double (Finite m e) \<longleftrightarrow> \<bar>m\<bar> < 2 ^ 53 \<and> - 1074 \<le> e \<and> e \<le> 971"
| "is_double _ \<longleftrightarrow> True"

text \<open>
  The integer nearest to \<open>M / 2 ^ s\<close>, a tie going to the even neighbour: the rounding
  mode of every arithmetic operation of Python floats.
\<close>

definition round_half_even :: "int \<Rightarrow> nat \<Rightarrow> int" where
  "round_half_even M s =
     (let q = M div 2 ^ s; r = M mod 2 ^ s
      in if 2 * r < 2 ^ s then q
         else if 2 ^ s < 2 * r then q + 1
         else if even q then q else q + 1)"

text \<open>
  The double nearest to the exact number \<open>M * 2 ^ e\<close>. The number keeps its 53 leading
  bits, and no bit below \<open>2 ^ - 1074\<close>: \<open>s\<close> is the count of low bits of \<open>M\<close> that
  are rounded away. A result of magnitude \<open>2 ^ 1024\<close> or more overflows to an infinity.
\<close>

definition round_double :: "int \<Rightarrow> int \<Rightarrow> pyfloat" where
  "round_double M e =
     (let s = nat (max 0 (max (bitlen \<bar>M\<bar> - 53) (- 1074 - e)));
          m = round_half_even M s;
          e' = e + int s
      in if 1024 < bitlen \<bar>m\<bar> + e' then (if 0 < m then PosInf else NegInf)
         else Finite m e')"

fun float_sign :: "pyfloat \<Rightarrow> int" where
  "float_sign (Finite m e) = sgn m"
| "float_sign PosInf = 1"
| "float_sign NegInf = - 1"
| "float_sign NaN = 0"

text \<open>
  \<open>x * y\<close> on floats: the exact product, rounded. A NaN operand, or an infinity times
  zero, gives NaN; an infinity times anything else gives the infinity of the product's sign.
\<close>

fun float_mul :: "pyfloat \<Rightarrow> pyfloat \<Rightarrow> pyfloat" where
  "float_mul (Finite m1 e1) (Finite m2 e2) = round_double (m1 * m2) (e1 + e2)"
| "float_mul x y =
     (if x = NaN \<or> y = NaN \<or> float_sign x * float_sign y = 0 then NaN
      else if 0 < float_sign x * float_sign y then PosInf
      else NegInf)"

text \<open>
  The conversion of the \<open>int\<close> operand in \<open>float * int\<close>: correctly rounded, and
  \<open>OverflowError\<close> for an integer beyond the range of doubles.
\<close>

definition float_of_int :: "int \<Rightarrow> error + pyfloat" where
  "float_of_int n =
     (case round_double n 0 of
        Finite m e \<Rightarrow> Inr (Finite m e)
      | _ \<Rightarrow> Inl OverflowError)"

text \<open>\<open>int(x)\<close> of a float: truncation towards zero; NaN and the infinities raise.\<close>

fun py_int :: "pyfloat \<Rightarrow> error + int" where
  "py_int (Finite m e) =
     Inr (if 0 \<le> e then m * 2 ^ nat e
          else if 0 \<le> m then m div 2 ^ nat (- e)
          else - ((- m) div 2 ^ nat (- e)))"
| "py_int NaN = Inl ValueError"
| "py_int _ = Inl OverflowError"

text \<open>A float strictly between 0 and 1: \<open>0 < m * 2 ^ e < 1\<close>.\<close>

fun in_open_unit_interval :: "pyfloat \<Rightarrow> bool" where
  "in_open_unit_interval (Finite m e) \<longleftrightarrow> 0 < m \<and> e < 0 \<and> m < 2 ^ nat (- e)"
| "in_open_unit_interval _ \<longleftrightarrow> False"

text \<open>The real number that a finite float denotes.\<close>

fun float_value :: "pyfloat \<Rightarrow> real" where
  "float_value (Finite m e) =
     (if 0 \<le> e then of_int m * 2 ^ nat e else of_int m / 2 ^ nat (- e))"
| "float_value _ = 0"

subsection \<open>The train size as the specification words it\<close>

text \<open>
  The specification's \<open>floor(train_fraction \<times> N)\<close>, in exact arithmetic: the floor of
  the product of the number that the fraction denotes and the size. It is compared below
  with the size that \<open>split_data\<close> computes.
\<close>

definition spec_train_size :: "pyfloat \<Rightarrow> nat \<Rightarrow> int" where
  "spec_train_size train_fraction N = \<lfloor>float_value train_fraction * real N\<rfloor>"

section \<open>Splitting the dataset (T2RDataset.split_data)\<close>

text \<open>A slice \<open>xs[start:stop]\<close> of a list, with Python's treatment of negative and
  out-of-range bounds.\<close>

definition py_slice :: "'a list \<Rightarrow> int \<Rightarrow> int \<Rightarrow> 'a list" where
  "py_slice xs start stop =
     (let n = int (length xs);
          lo = (if start < 0 then max (start + n) 0 else min start n);
          hi = (if stop < 0 then max (stop + n) 0 else min stop n)
      in take (nat (hi - lo)) (drop (nat lo) xs))"

text \<open>\<open>itertools.accumulate\<close>: the running sums.\<close>

fun accumulate_from :: "int \<Rightarrow> int list \<Rightarrow> int list" where
  "accumulate_from acc [] = []"
| "accumulate_from acc (x # xs) = (acc + x) # accumulate_from (acc + x) xs"

definition accumulate :: "int list \<Rightarrow> int list" where
  "accumulate xs = accumulate_from 0 xs"

text \<open>
  \<open>torch.utils.data.random_split(dataset, lengths)\<close>, for integer \<open>lengths\<close> and a
  dataset of \<open>n\<close> items. The random draw \<open>torch.randperm(k)\<close> is the parameter
  \<open>randperm\<close>. Since PyTorch 1.13 lengths that sum to 1 are read as fractions of the
  dataset: each must lie in \<open>[0, 1]\<close>, becomes \<open>floor(n * frac)\<close>, and what is left over
  is dealt out one by one. Then, as in every version: the lengths must sum to \<open>n\<close>, and
  the subsets are consecutive slices \<open>indices[offset - length : offset]\<close> of the
  permutation. A subset is modelled by its list of indices.
\<close>

definition fraction_lengths :: "nat \<Rightarrow> int list \<Rightarrow> error + int list" where
  "fraction_lengths n lengths =
     (if list_ex (\<lambda>frac. frac < 0 \<or> 1 < frac) lengths then Inl ValueError
      else
        (let subset_lengths = map (\<lambda>frac. int n * frac) lengths;
             remainder = int n - sum_list subset_lengths
         in Inr (foldl (\<lambda>ls i. ls[i mod length ls := ls ! (i mod length ls) + 1])
                   subset_lengths [0..<nat remainder])))"

definition random_split :: "nat \<Rightarrow> int list \<Rightarrow> (nat \<Rightarrow> nat list) \<Rightarrow> error + nat list list" where
  "random_split n lengths randperm =
     (case (if sum_list lengths = 1 then fraction_lengths n lengths else Inr lengths) of
        Inl e \<Rightarrow> Inl e
      | Inr lengths' \<Rightarrow>
          if sum_list lengths' \<noteq> int n then Inl ValueError
          else
            (let indices = randperm (nat (sum_list lengths'))
             in Inr (map (\<lambda>(offset, length). py_slice indices (offset - length) offset)
                       (zip (accumulate lengths') lengths'))))"

text \<open>What \<open>torch.randperm(n)\<close> returns: the numbers below \<open>n\<close>, each once, in some order.\<close>

definition is_randperm :: "(nat \<Rightarrow> nat list) \<Rightarrow> bool" where
  "is_randperm randperm \<longleftrightarrow> (\<forall>n. distinct (randperm n) \<and> set (randperm n) = {0..<n})"

text \<open>
  The statement \<open>train_size = int(train_percentage * dataset_size)\<close> of \<open>split_data\<close>:
  the size is converted to a float, the two floats are multiplied, and the product is
  truncated.
\<close>

definition train_size_of :: "pyfloat \<Rightarrow> nat \<Rightarrow> error + int" where
  "train_size_of train_percentage dataset_size =
     (case float_of_int (int dataset_size) of
        Inl e \<Rightarrow> Inl e
      | Inr size_as_float \<Rightarrow> py_int (float_mul train_percentage size_as_float))"

text \<open>
  \<open>split_data(self, train_percentage)\<close>. The unpacking
  \<open>train_dataset, test_dataset = random_split(...)\<close> needs a list of two.
\<close>

definition split_data ::
  "'img t2rdataset \<Rightarrow> pyfloat \<Rightarrow> (nat \<Rightarrow> nat list) \<Rightarrow> error + (nat list \<times> nat list)" where
  "split_data self train_percentage randperm =
     (let dataset_size = length (data self) in
      case train_size_of train_percentage dataset_size of
        Inl e \<Rightarrow> Inl e
      | Inr train_size \<Rightarrow>
          (let test_size = int dataset_size - train_size in
           case random_split (len self) [train_size, test_size] randperm of
             Inl e \<Rightarrow> Inl e
           | Inr [train_dataset, test_dataset] \<Rightarrow> Inr (train_dataset, test_dataset)
           | Inr _ \<Rightarrow> Inl ValueError))"

text \<open>
  Where the two slices of \<open>random_split n [t, n - t]\<close> meet: the first subset is the
  permutation up to this position, the second is the rest.
\<close>

definition split_point :: "nat \<Rightarrow> int \<Rightarrow> nat" where
  "split_point n t = nat (if t < 0 then max (t + int n) 0 else min t (int n))"

subsection \<open>Concrete inputs for the split\<close>

text \<open>
  The double of the literal \<open>0.7\<close>, the default \<open>train_percentage\<close>; a permutation (the
  indices in descending order); datasets of a given size.
\<close>

definition seven_tenths :: pyfloat where
  "seven_tenths = Finite 6305039478318694 (- 53)"

text \<open>The double of the literal \<open>0.57\<close>.\<close>

definition fifty_seven_hundredths :: pyfloat where
  "fifty_seven_hundredths = Finite 5134103575202365 (- 53)"

definition descending :: "nat \<Rightarrow> nat list" where
  "descending n = rev [0..<n]"

definition dataset_of_size :: "nat \<Rightarrow> (nat list \<times> int) t2rdataset" where
  "dataset_of_size n = \<lparr>data = replicate n ([100, 100, 3], 0), targets = replicate n 0\<rparr>"

section \<open>The networks (classes TrainsCNN and StationsCNN)\<close>

text \<open>
  The layers that the two \<open>nn.Sequential\<close> pipelines are built from, with the arguments
  the source gives them: \<open>Conv2d in_channels out_channels kernel_size\<close> (stride 1, no
  padding), \<open>MaxPool2d kernel_size\<close> (stride equal to the kernel),
  \<open>Linear in_features out_features\<close>.
\<close>

datatype layer =
    Conv2d nat nat nat
  | ReLU
  | MaxPool2d nat
  | Flatten
  | Linear nat nat

definition TrainsCNN :: "layer list" where
  "TrainsCNN =
     [Conv2d 3 15 3, ReLU, MaxPool2d 2, ReLU, Flatten, Linear 21960 512, ReLU, Linear 512 6]"

definition StationsCNN :: "layer list" where
  "StationsCNN =
     [Conv2d 3 15 3, ReLU, MaxPool2d 2, ReLU, Flatten, Linear 36015 512, ReLU, Linear 512 6]"

text \<open>
  The shape of one sample (the batch dimension left out) after a layer, as PyTorch
  documents it; a shape that the layer rejects raises \<open>RuntimeError\<close>. A convolution
  needs its input channels and an input no smaller than the kernel; a pooling whose output
  would be empty is rejected; \<open>Flatten\<close> multiplies the dimensions out; a linear layer
  needs its input features in the last dimension.
\<close>

fun layer_shape :: "layer \<Rightarrow> nat list \<Rightarrow> error + nat list" where
  "layer_shape (Conv2d in_channels out_channels kernel_size) [c, h, w] =
     (if c \<noteq> in_channels \<or> h < kernel_size \<or> w < kernel_size then Inl RuntimeError
      else Inr [out_channels, h - kernel_size + 1, w - kernel_size + 1])"
| "layer_shape (Conv2d in_channels out_channels kernel_size) _ = Inl RuntimeError"
| "layer_shape ReLU shp = Inr shp"
| "layer_shape (MaxPool2d kernel_size) [c, h, w] =
     (if h div kernel_size = 0 \<or> w div kernel_size = 0 then Inl RuntimeError
      else Inr [c, h div kernel_size, w div kernel_size])"
| "layer_shape (MaxPool2d kernel_size) _ = Inl RuntimeError"
| "layer_shape Flatten shp = Inr [prod_list shp]"
| "layer_shape (Linear in_features out_features) shp =
     (if shp \<noteq> [] \<and> last shp = in_features then Inr (butlast shp @ [out_features])
      else Inl RuntimeError)"

text \<open>\<open>nn.Sequential\<close>: the layers in order.\<close>

fun forward_shape :: "layer list \<Rightarrow> nat list \<Rightarrow> error + nat list" where
  "forward_shape [] shp = Inr shp"
| "forward_shape (l # ls) shp =
     (case layer_shape l shp of
        Inl e \<Rightarrow> Inl e
      | Inr shp' \<Rightarrow> forward_shape ls shp')"

text \<open>
  \<open>transforms.ToTensor()\<close> turns an image array of shape \<open>(H, W, C)\<close> into a tensor of
  shape \<open>(C, H, W)\<close>, and one of shape \<open>(H, W)\<close> into a tensor of shape
  \<open>(1, H, W)\<close>; an array of any other rank raises \<open>ValueError\<close>.
\<close>

fun to_tensor_shape :: "nat list \<Rightarrow> error + nat list" where
  "to_tensor_shape [h, w, c] = Inr [c, h, w]"
| "to_tensor_shape [h, w] = Inr [1, h, w]"
| "to_tensor_shape shp = Inl ValueError"

text \<open>The shape of the scores that a network gives for an image array: the transform, then
  the layers.\<close>

definition scores_shape :: "layer list \<Rightarrow> nat list \<Rightarrow> error + nat list" where
  "scores_shape net image_shape =
     (case to_tensor_shape image_shape of
        Inl e \<Rightarrow> Inl e
      | Inr shp \<Rightarrow> forward_shape net shp)"

section \<open>The training loop (class Classifier)\<close>

subsection \<open>The state and the library\<close>

text \<open>
  What a \<open>Classifier\<close> mutates while it trains: the parameters of \<open>self.model\<close>, the
  state of \<open>self.optimizer\<close> (Adam's moments and step count), and the mode flag that
  \<open>model.train()\<close> and \<open>model.eval()\<close> set.
\<close>

record ('w, 'o) classifier =
  model_params :: 'w
  optimizer_state :: 'o
  training :: bool

text \<open>
  The PyTorch and NumPy computations are parameters of the model, total functions of what
  they read. For a batch \<open>b = (x, y)\<close>:
  \<^item> \<open>batch_loss mode w b\<close> is \<open>self.loss_func(self.model(x), y).item()\<close> at
    parameters \<open>w\<close>;
  \<^item> \<open>adam_step o w b\<close> is \<open>batch_loss.backward()\<close> followed by
    \<open>self.optimizer.step()\<close>: the gradient step on the loss of \<open>b\<close>, giving the new
    optimizer state and the new parameters;
  \<^item> \<open>batch_accuracy mode w b\<close> is the fraction of \<open>argmax\<close> predictions equal to
    \<open>y\<close>;
  \<^item> \<open>np_mean\<close> is \<open>np.mean\<close> of a list.
  Values of type \<open>'v\<close> are floats, finite or not.
\<close>

record ('w, 'o, 'b, 'v) torch =
  batch_loss :: "bool \<Rightarrow> 'w \<Rightarrow> 'b \<Rightarrow> 'v"
  adam_step :: "'o \<Rightarrow> 'w \<Rightarrow> 'b \<Rightarrow> 'o \<times> 'w"
  batch_accuracy :: "bool \<Rightarrow> 'w \<Rightarrow> 'b \<Rightarrow> 'v"
  np_mean :: "'v list \<Rightarrow> 'v"

subsection \<open>One batch\<close>

text \<open>
  \<open>train_batch(self, x, y)\<close>: train mode, gradients zeroed, loss, backward, optimizer
  step; the loss is returned. The gradient buffers are cleared before each backward pass,
  so they carry nothing from one call to the next and are not part of the state.
\<close>

definition train_batch ::
  "('w, 'o, 'b, 'v) torch \<Rightarrow> ('w, 'o) classifier \<Rightarrow> 'b \<Rightarrow> ('w, 'o) classifier \<times> 'v" where
  "train_batch lib self b =
     (let self1 = self\<lparr>training := True\<rparr>;
          loss = batch_loss lib (training self1) (model_params self1) b;
          (o', w') = adam_step lib (optimizer_state self1) (model_params self1) b
      in (self1\<lparr>model_params := w', optimizer_state := o'\<rparr>, loss))"

text \<open>\<open>accuracy(self, x, y)\<close>, under \<open>torch.no_grad()\<close>: eval mode, prediction, score.\<close>

definition accuracy ::
  "('w, 'o, 'b, 'v) torch \<Rightarrow> ('w, 'o) classifier \<Rightarrow> 'b \<Rightarrow> ('w, 'o) classifier \<times> 'v" where
  "accuracy lib self b =
     (let self1 = self\<lparr>training := False\<rparr>
      in (self1, batch_accuracy lib (training self1) (model_params self1) b))"

subsection \<open>One epoch\<close>

text \<open>
  The loop \<open>for batch in self.train_loader\<close>: the state, \<open>epoch_losses\<close> and
  \<open>epoch_accuracies\<close> are threaded through the batches.
\<close>

fun train_pass ::
  "('w, 'o, 'b, 'v) torch \<Rightarrow> ('w, 'o) classifier \<times> 'v list \<times> 'v list \<Rightarrow> 'b list
     \<Rightarrow> ('w, 'o) classifier \<times> 'v list \<times> 'v list" where
  "train_pass lib (self, epoch_losses, epoch_accuracies) [] =
     (self, epoch_losses, epoch_accuracies)"
| "train_pass lib (self, epoch_losses, epoch_accuracies) (batch # rest) =
     (let (self1, batch_loss) = train_batch lib self batch;
          epoch_losses' = epoch_losses @ [batch_loss];
          (self2, batch_acc) = accuracy lib self1 batch;
          epoch_accuracies' = epoch_accuracies @ [batch_acc]
      in train_pass lib (self2, epoch_losses', epoch_accuracies') rest)"

text \<open>
  The loop \<open>for ix, batch in enumerate(iter(self.test_loader))\<close>: the state,
  \<open>epoch_test_accuracies\<close> and \<open>epoch_test_losses\<close>. The loss of a test batch is
  obtained by \<open>test_loss = self.train_batch(x, y)\<close>.
\<close>

fun test_pass ::
  "('w, 'o, 'b, 'v) torch \<Rightarrow> ('w, 'o) classifier \<times> 'v list \<times> 'v list \<Rightarrow> 'b list
     \<Rightarrow> ('w, 'o) classifier \<times> 'v list \<times> 'v list" where
  "test_pass lib (self, epoch_test_accuracies, epoch_test_losses) [] =
     (self, epoch_test_accuracies, epoch_test_losses)"
| "test_pass lib (self, epoch_test_accuracies, epoch_test_losses) (batch # rest) =
     (let (self1, test_loss) = train_batch lib self batch;
          (self2, test_acc) = accuracy lib self1 batch;
          epoch_test_accuracies' = epoch_test_accuracies @ [test_acc];
          epoch_test_losses' = epoch_test_losses @ [test_loss]
      in test_pass lib (self2, epoch_test_accuracies', epoch_test_losses') rest)"

text \<open>The five lists that \<open>train\<close> fills, one entry per epoch.\<close>

record 'v results =
  train_losses :: "'v list"
  train_accuracies :: "'v list"
  test_losses :: "'v list"
  test_accuracies :: "'v list"
  time_per_epoch :: "real list"

definition no_results :: "'v results" where
  "no_results =
     \<lparr>train_losses = [], train_accuracies = [], test_losses = [], test_accuracies = [],
      time_per_epoch = []\<rparr>"

text \<open>
  The body of \<open>for epoch in range(self.num_epochs)\<close>. The loaders shuffle, so the batches
  they yield depend on the epoch: \<open>train_loader epoch\<close> and \<open>test_loader epoch\<close> are the
  batch sequences of that epoch. \<open>time.time()\<close> is called twice in each epoch and nowhere
  else: \<open>clock k\<close> is the reading of the \<open>k\<close>-th call of the run, counted from 0.
\<close>

definition run_epoch ::
  "('w, 'o, 'b, 'v) torch \<Rightarrow> (nat \<Rightarrow> 'b list) \<Rightarrow> (nat \<Rightarrow> 'b list) \<Rightarrow> (nat \<Rightarrow> real)
     \<Rightarrow> ('w, 'o) classifier \<times> 'v results \<Rightarrow> nat \<Rightarrow> ('w, 'o) classifier \<times> 'v results" where
  "run_epoch lib train_loader test_loader clock state epoch =
     (let (self, res) = state;
          start_time = clock (2 * epoch);
          (self1, epoch_losses, epoch_accuracies) =
             train_pass lib (self, [], []) (train_loader epoch);
          res1 = res\<lparr>train_losses := train_losses res @ [np_mean lib epoch_losses],
                     train_accuracies := train_accuracies res @ [np_mean lib epoch_accuracies]\<rparr>;
          (self2, epoch_test_accuracies, epoch_test_losses) =
             test_pass lib (self1, [], []) (test_loader epoch);
          res2 = res1\<lparr>test_losses := test_losses res1 @ [np_mean lib epoch_test_losses],
                      test_accuracies := test_accuracies res1 @ [np_mean lib epoch_test_accuracies]\<rparr>;
          end_time = clock (2 * epoch + 1)
      in (self2, res2\<lparr>time_per_epoch := time_per_epoch res2 @ [end_time - start_time]\<rparr>))"

subsection \<open>The run\<close>

text \<open>The epoch loop of \<open>train\<close>; \<open>range\<close> of a negative number is empty.\<close>

definition train_loop ::
  "('w, 'o, 'b, 'v) torch \<Rightarrow> ('w, 'o) classifier \<Rightarrow> int \<Rightarrow> (nat \<Rightarrow> 'b list) \<Rightarrow> (nat \<Rightarrow> 'b list)
     \<Rightarrow> (nat \<Rightarrow> real) \<Rightarrow> ('w, 'o) classifier \<times> 'v results" where
  "train_loop lib self num_epochs train_loader test_loader clock =
     foldl (run_epoch lib train_loader test_loader clock) (self, no_results)
       [0..<nat num_epochs]"

text \<open>
  \<open>plt.plot(x, y)\<close> raises \<open>ValueError\<close> (x and y must have same first dimension) when
  the two sequences differ in length.
\<close>

definition plt_plot :: "nat list \<Rightarrow> 'a list \<Rightarrow> error + unit" where
  "plt_plot xs ys = (if length xs \<noteq> length ys then Inl ValueError else Inr ())"

text \<open>
  \<open>plot_results\<close>: five curves, each against \<open>np.arange(10) + 1\<close>, the numbers 1 to 10.
\<close>

definition plot_results :: "'v results \<Rightarrow> error + unit" where
  "plot_results res =
     (case plt_plot [1..<11] (train_losses res) of Inl e \<Rightarrow> Inl e | Inr _ \<Rightarrow>
      case plt_plot [1..<11] (test_losses res) of Inl e \<Rightarrow> Inl e | Inr _ \<Rightarrow>
      case plt_plot [1..<11] (train_accuracies res) of Inl e \<Rightarrow> Inl e | Inr _ \<Rightarrow>
      case plt_plot [1..<11] (test_accuracies res) of Inl e \<Rightarrow> Inl e | Inr _ \<Rightarrow>
      plt_plot [1..<11] (time_per_epoch res))"

text \<open>
  What a call of \<open>train\<close> that returns leaves behind: the state of the classifier, the
  tuple handed to \<open>plot_results\<close>, the two lists printed at the end, and the value
  returned. \<open>train\<close> has no \<open>return\<close> statement: it returns Python's \<open>None\<close>,
  the \<open>None\<close> of the field \<open>returned\<close>. The progress line printed at the start of
  each epoch is left out.
\<close>

record ('w, 'o, 'v) outcome =
  final_state :: "('w, 'o) classifier"
  plotted :: "'v results"
  printed :: "'v list list"
  returned :: "'v results option"

definition train ::
  "('w, 'o, 'b, 'v) torch \<Rightarrow> ('w, 'o) classifier \<Rightarrow> int \<Rightarrow> (nat \<Rightarrow> 'b list) \<Rightarrow> (nat \<Rightarrow> 'b list)
     \<Rightarrow> (nat \<Rightarrow> real) \<Rightarrow> error + ('w, 'o, 'v) outcome" where
  "train lib self num_epochs train_loader test_loader clock =
     (let (self', res) = train_loop lib self num_epochs train_loader test_loader clock in
      case plot_results res of
        Inl e \<Rightarrow> Inl e
      | Inr _ \<Rightarrow>
          Inr \<lparr>final_state = self', plotted = res,
               printed = [train_accuracies res, test_accuracies res],
               returned = None\<rparr>)"

subsection \<open>A small library for concrete runs\<close>


definition toy_torch :: "(int, nat, nat, pyfloat) torch" where
  "toy_torch =
     \<lparr>batch_loss = (\<lambda>mode w b. if b = 0 then NaN else Finite 1 0),
      adam_step = (\<lambda>steps w b. (Suc steps, w - 1)),
      batch_accuracy = (\<lambda>mode w b. Finite 1 0),
      np_mean = (\<lambda>vs. if vs = [] \<or> NaN \<in> set vs then NaN else hd vs)\<rparr>"

definition fresh :: "(int, nat) classifier" where
  "fresh = \<lparr>model_params = 0, optimizer_state = 0, training = True\<rparr>"

subsection \<open>Notions used to state what the loop does\<close>

text \<open>
  The classifier after the two calls, \<open>train_batch\<close> and then \<open>accuracy\<close>, that either
  pass makes for a batch; the optimizer state and parameters after gradient steps on a
  sequence of batches; the classifier at the moment epoch \<open>e\<close> begins.
\<close>

definition batch_effect ::
  "('w, 'o, 'b, 'v) torch \<Rightarrow> ('w, 'o) classifier \<Rightarrow> 'b \<Rightarrow> ('w, 'o) classifier" where
  "batch_effect lib self b = fst (accuracy lib (fst (train_batch lib self b)) b)"

definition gradient_steps :: "('w, 'o, 'b, 'v) torch \<Rightarrow> 'o \<times> 'w \<Rightarrow> 'b list \<Rightarrow> 'o \<times> 'w" where
  "gradient_steps lib = foldl (\<lambda>(steps, w) b. adam_step lib steps w b)"

definition epoch_start ::
  "('w, 'o, 'b, 'v) torch \<Rightarrow> ('w, 'o) classifier \<Rightarrow> (nat \<Rightarrow> 'b list) \<Rightarrow> (nat \<Rightarrow> 'b list)
     \<Rightarrow> (nat \<Rightarrow> real) \<Rightarrow> nat \<Rightarrow> ('w, 'o) classifier" where
  "epoch_start lib self train_loader test_loader clock e =
     fst (train_loop lib self (int e) train_loader test_loader clock)"

section \<open>Properties of the dataset loader\<close>

lemma py_split_not_Nil: "py_split sep s \<noteq> []"
  by (induction s) (auto split: list.splits)

lemma hd_py_split: "hd (py_split sep s) = takeWhile (\<lambda>c. c \<noteq> sep) s"
  by (induction s) (auto split: list.splits simp: py_split_not_Nil)

lemma filename_label_takeWhile:
  "filename_label filename = takeWhile (\<lambda>c. c \<noteq> CHR ''-'') filename"
  by (simp add: filename_label_def hd_py_split)

lemma load_station_image_Some:
  "load_station_image lib self (Some img) filename =
     Inr (self\<lparr>data := data self @ map (ndimage_rotate lib (cv2_resize lib img (100, 100))) [0, 90, 180, 270],
              targets := targets self @ replicate 4 (target_of filename)\<rparr>)"
  by (simp add: load_station_image_def append_rotation_def target_of_def Let_def numeral_eq_Suc)

lemma load_train_image_Some:
  "load_train_image lib self (Some img) filename =
     Inr (self\<lparr>data := data self @ [cv2_resize lib img (125, 50)],
              targets := targets self @ [target_of filename]\<rparr>)"
  by (simp add: load_train_image_def target_of_def Let_def)

lemma load_station_image_None: "load_station_image lib self None filename = Inl CvError"
  by (simp add: load_station_image_def)

lemma load_train_image_None: "load_train_image lib self None filename = Inl CvError"
  by (simp add: load_train_image_def)

lemma station_images_Some:
  "cv2_imread node = Some img \<Longrightarrow>
   station_images lib node = map (ndimage_rotate lib (cv2_resize lib img (100, 100))) [0, 90, 180, 270]"
  by (simp add: station_images_def)

lemma train_images_Some:
  "cv2_imread node = Some img \<Longrightarrow> train_images lib node = [cv2_resize lib img (125, 50)]"
  by (simp add: train_images_def)

lemma load_files_station:
  "load_files lib ''station'' self files =
     (if list_all (\<lambda>(filename, node). decodes node) (not_skipped files)
      then Inr (self\<lparr>data := data self @ concat (map (\<lambda>(filename, node). station_images lib node) (not_skipped files)),
                    targets := targets self @ concat (map (\<lambda>(filename, node). replicate 4 (target_of filename)) (not_skipped files))\<rparr>)
      else Inl CvError)"
proof (induction files arbitrary: self)
  case Nil
  show ?case by (simp add: not_skipped_def)
next
  case (Cons entry files)
  obtain filename node where entry: "entry = (filename, node)" by (cases entry)
  show ?case
  proof (cases "filename = ''.DS_Store''")
    case True
    with Cons entry show ?thesis by (simp add: not_skipped_def)
  next
    case False
    show ?thesis
    proof (cases "cv2_imread node")
      case None
      with False entry show ?thesis
        by (simp add: not_skipped_def decodes_def load_station_image_None)
    next
      case (Some img)
      with False entry Cons show ?thesis
        by (simp add: not_skipped_def decodes_def load_station_image_Some station_images_Some)
    qed
  qed
qed

lemma load_files_train:
  "load_files lib ''train'' self files =
     (if list_all (\<lambda>(filename, node). decodes node) (not_skipped files)
      then Inr (self\<lparr>data := data self @ concat (map (\<lambda>(filename, node). train_images lib node) (not_skipped files)),
                    targets := targets self @ concat (map (\<lambda>(filename, node). [target_of filename]) (not_skipped files))\<rparr>)
      else Inl CvError)"
proof (induction files arbitrary: self)
  case Nil
  show ?case by (simp add: not_skipped_def)
next
  case (Cons entry files)
  obtain filename node where entry: "entry = (filename, node)" by (cases entry)
  show ?case
  proof (cases "filename = ''.DS_Store''")
    case True
    with Cons entry show ?thesis by (simp add: not_skipped_def)
  next
    case False
    show ?thesis
    proof (cases "cv2_imread node")
      case None
      with False entry show ?thesis
        by (simp add: not_skipped_def decodes_def load_train_image_None)
    next
      case (Some img)
      with False entry Cons show ?thesis
        by (simp add: not_skipped_def decodes_def load_train_image_Some train_images_Some)
    qed
  qed
qed

lemma load_files_other:
  "dtype \<noteq> ''station'' \<Longrightarrow> dtype \<noteq> ''train'' \<Longrightarrow> load_files lib dtype self files = Inr self"
  by (induction files arbitrary: self) (auto simp: Let_def)

lemma load_files_eq:
  "load_files lib dtype self files =
     (if reads_images dtype \<and> \<not> list_all (\<lambda>(filename, node). decodes node) (not_skipped files)
      then Inl CvError
      else Inr (self\<lparr>data := data self @ concat (map (\<lambda>(filename, node). file_images lib dtype node) (not_skipped files)),
                    targets := targets self @ concat (map (\<lambda>(filename, node). file_targets dtype filename) (not_skipped files))\<rparr>))"
proof -
  consider "dtype = ''station''" | "dtype = ''train''" | "dtype \<noteq> ''station''" "dtype \<noteq> ''train''"
    by blast
  then show ?thesis
  proof cases
    case 1
    then show ?thesis
      by (simp add: load_files_station reads_images_def file_images_def file_targets_def)
  next
    case 2
    then show ?thesis
      by (simp add: load_files_train reads_images_def file_images_def file_targets_def)
  next
    case 3
    then have "concat (map (\<lambda>(filename, node). file_images lib dtype node) xs) = []"
      and "concat (map (\<lambda>(filename, node). file_targets dtype filename) xs) = []"
      for xs :: "(string \<times> 'a fsnode) list"
      by (induction xs) (auto simp: file_images_def file_targets_def)
    with 3 show ?thesis
      by (simp add: load_files_other reads_images_def)
  qed
qed

lemma visited_files_Nil: "visited_files [] = []"
  by (simp add: visited_files_def not_skipped_def)

lemma visited_files_Cons:
  "visited_files ((folder, node) # rest) =
     (if folder \<noteq> ''.DS_Store'' then not_skipped (folder_entries node) @ visited_files rest
      else visited_files rest)"
  by (simp add: visited_files_def not_skipped_def)

lemma not_skipped_Cons:
  "not_skipped ((name, x) # rest) =
     (if name \<noteq> ''.DS_Store'' then (name, x) # not_skipped rest else not_skipped rest)"
  by (simp add: not_skipped_def)

lemma load_folders_well_formed:
  assumes "list_all (\<lambda>(folder, node). is_folder node) (not_skipped folders)"
    and "reads_images dtype \<Longrightarrow> list_all (\<lambda>(filename, node). decodes node) (visited_files folders)"
  shows "load_folders lib dtype self folders =
     Inr (self\<lparr>data := data self @ concat (map (\<lambda>(filename, node). file_images lib dtype node) (visited_files folders)),
              targets := targets self @ concat (map (\<lambda>(filename, node). file_targets dtype filename) (visited_files folders))\<rparr>)"
  using assms
proof (induction folders arbitrary: self)
  case Nil
  show ?case by (simp add: visited_files_Nil)
next
  case (Cons entry folders)
  obtain folder node where entry: "entry = (folder, node)" by (cases entry)
  show ?case
  proof (cases "folder = ''.DS_Store''")
    case True
    with Cons entry show ?thesis
      by (simp add: visited_files_Cons not_skipped_Cons)
  next
    case False
    with Cons.prems(1) entry obtain files where node: "node = Folder files"
      by (cases node) (simp_all add: not_skipped_Cons)
    from Cons.prems(1) entry False
    have wf: "list_all (\<lambda>(folder, node). is_folder node) (not_skipped folders)"
      by (simp add: not_skipped_Cons)
    have dec: "reads_images dtype \<Longrightarrow> list_all (\<lambda>(filename, node). decodes node) (not_skipped files)"
      and dec': "reads_images dtype \<Longrightarrow> list_all (\<lambda>(filename, node). decodes node) (visited_files folders)"
      using Cons.prems(2) entry False node by (simp_all add: visited_files_Cons)
    from dec have files: "load_files lib dtype self files =
       Inr (self\<lparr>data := data self @ concat (map (\<lambda>(filename, node). file_images lib dtype node) (not_skipped files)),
                targets := targets self @ concat (map (\<lambda>(filename, node). file_targets dtype filename) (not_skipped files))\<rparr>)"
      by (auto simp: load_files_eq)
    show ?thesis
      using False entry node files Cons.IH [OF wf dec']
      by (simp add: visited_files_Cons)
  qed
qed

lemma load_folders_Inr_well_formed:
  assumes "load_folders lib dtype self folders = Inr ds"
  shows "list_all (\<lambda>(folder, node). is_folder node) (not_skipped folders) \<and>
         (reads_images dtype \<longrightarrow> list_all (\<lambda>(filename, node). decodes node) (visited_files folders))"
  using assms
proof (induction folders arbitrary: self)
  case Nil
  show ?case by (simp add: visited_files_Nil not_skipped_def)
next
  case (Cons entry folders)
  obtain folder node where entry: "entry = (folder, node)" by (cases entry)
  show ?case
  proof (cases "folder = ''.DS_Store''")
    case True
    with Cons entry show ?thesis
      by (simp add: visited_files_Cons not_skipped_Cons)
  next
    case False
    with Cons.prems entry obtain files where node: "node = Folder files"
      by (cases node) simp_all
    from Cons.prems entry False node obtain self' where
      files: "load_files lib dtype self files = Inr self'" and
      rest: "load_folders lib dtype self' folders = Inr ds"
      by (auto split: sum.splits)
    from files have "reads_images dtype \<longrightarrow> list_all (\<lambda>(filename, node). decodes node) (not_skipped files)"
      by (auto simp: load_files_eq split: if_splits)
    with Cons.IH [OF rest] False entry node show ?thesis
      by (simp add: visited_files_Cons not_skipped_Cons)
  qed
qed

lemma target_of_spec:
  "target_of filename = spec_label_id (takeWhile (\<lambda>c. c \<noteq> CHR ''-'') filename)"
  by (simp add: target_of_def dict_get_def color_mapping_def filename_label_takeWhile
      spec_label_id_def)

lemma T2RDataset_Inr:
  assumes "T2RDataset lib (Some (Folder folders)) dtype = Inr ds"
  shows "list_all (\<lambda>(folder, node). is_folder node) (not_skipped folders)"
    and "reads_images dtype \<Longrightarrow> list_all (\<lambda>(filename, node). decodes node) (visited_files folders)"
    and "data ds = concat (map (\<lambda>(filename, node). file_images lib dtype node) (visited_files folders))"
    and "targets ds = concat (map (\<lambda>(filename, node). file_targets dtype filename) (visited_files folders))"
proof -
  from assms have run: "load_folders lib dtype empty_dataset folders = Inr ds"
    by (simp add: T2RDataset_def load_data_def)
  from load_folders_Inr_well_formed [OF run]
  show wf: "list_all (\<lambda>(folder, node). is_folder node) (not_skipped folders)"
    and dec: "reads_images dtype \<Longrightarrow> list_all (\<lambda>(filename, node). decodes node) (visited_files folders)"
    by simp_all
  from load_folders_well_formed [OF wf dec, where lib = lib and self = empty_dataset] run
  show "data ds = concat (map (\<lambda>(filename, node). file_images lib dtype node) (visited_files folders))"
    and "targets ds = concat (map (\<lambda>(filename, node). file_targets dtype filename) (visited_files folders))"
    by (auto simp: empty_dataset_def)
qed

lemma T2RDataset_well_formed:
  assumes "list_all (\<lambda>(folder, node). is_folder node) (not_skipped folders)"
    and "reads_images dtype \<Longrightarrow> list_all (\<lambda>(filename, node). decodes node) (visited_files folders)"
  shows "T2RDataset lib (Some (Folder folders)) dtype =
     Inr \<lparr>data = concat (map (\<lambda>(filename, node). file_images lib dtype node) (visited_files folders)),
          targets = concat (map (\<lambda>(filename, node). file_targets dtype filename) (visited_files folders))\<rparr>"
  using load_folders_well_formed [OF assms, where lib = lib and self = empty_dataset]
  by (simp add: T2RDataset_def load_data_def empty_dataset_def)

lemma length_concat_const:
  "(\<And>x. x \<in> set xs \<Longrightarrow> length (f x) = k) \<Longrightarrow> length (concat (map f xs)) = k * length xs"
  by (induction xs) auto

text \<open>
  Claim C2. For every file that a loader is given, whatever its name, the target appended is
  the table value of the text before the first \<open>-\<close> of the name (four times by the
  station loader, once by the train loader): \<open>blue\<close> 1, \<open>black\<close> 2, \<open>green\<close> 3,
  \<open>red\<close> 4, \<open>yellow\<close> 5. When that text is not one of the five names, matched exactly
  and case-sensitively, the value computed by \<open>color_mapping.get(label, 0)\<close> is 0.
\<close>

theorem derived_label:
  "(\<exists>ds. load_station_image lib self (Some img) filename = Inr ds \<and>
      targets ds = targets self @
        replicate 4 (spec_label_id (takeWhile (\<lambda>c. c \<noteq> CHR ''-'') filename))) \<and>
   (\<exists>ds. load_train_image lib self (Some img) filename = Inr ds \<and>
      targets ds = targets self @
        [spec_label_id (takeWhile (\<lambda>c. c \<noteq> CHR ''-'') filename)]) \<and>
   (takeWhile (\<lambda>c. c \<noteq> CHR ''-'') filename \<notin> {''blue'', ''black'', ''green'', ''red'', ''yellow''}
      \<longrightarrow> dict_get color_mapping (hd (py_split CHR ''-'' filename)) 0 = 0)"
proof (intro conjI impI)
  show "\<exists>ds. load_station_image lib self (Some img) filename = Inr ds \<and>
      targets ds = targets self @
        replicate 4 (spec_label_id (takeWhile (\<lambda>c. c \<noteq> CHR ''-'') filename))"
    by (simp add: load_station_image_Some target_of_spec)
  show "\<exists>ds. load_train_image lib self (Some img) filename = Inr ds \<and>
      targets ds = targets self @
        [spec_label_id (takeWhile (\<lambda>c. c \<noteq> CHR ''-'') filename)]"
    by (simp add: load_train_image_Some target_of_spec)
next
  assume "takeWhile (\<lambda>c. c \<noteq> CHR ''-'') filename \<notin> {''blue'', ''black'', ''green'', ''red'', ''yellow''}"
  then have "spec_label_id (takeWhile (\<lambda>c. c \<noteq> CHR ''-'') filename) = 0"
    by (simp add: spec_label_id_def)
  then show "dict_get color_mapping (hd (py_split CHR ''-'' filename)) 0 = 0"
    using target_of_spec [of filename] by (simp add: target_of_def filename_label_def)
qed

theorem derived_label_witness:
  "takeWhile (\<lambda>c. c \<noteq> CHR ''-'') ''Red-1.png'' \<notin> {''blue'', ''black'', ''green'', ''red'', ''yellow''} \<and>
   dict_get color_mapping (hd (py_split CHR ''-'' ''Red-1.png'')) 0 = 0 \<and>
   (\<exists>ds. load_train_image shape_lib empty_dataset (Some ([480, 640, 3], 0)) ''Red-1.png'' = Inr ds \<and>
      targets ds = [0])"
  using derived_label [of shape_lib empty_dataset "([480, 640, 3], 0)" "''Red-1.png''"]
  by (simp add: spec_label_id_def empty_dataset_def)

lemma drop2_bgr: "bgr_image lib img \<Longrightarrow> drop 2 (shape lib img) = [3]"
proof -
  assume "bgr_image lib img"
  then have len: "length (shape lib img) = 3" and ch: "shape lib img ! 2 = 3"
    by (simp_all add: bgr_image_def)
  from len obtain a b c where "shape lib img = [a, b, c]"
    by (auto simp: numeral_3_eq_3 length_Suc_conv)
  with ch show ?thesis by simp
qed

text \<open>
  Claim C3. For every station dataset that the constructor builds, every visited file decoded,
  and the file contributes exactly four images: the image resized to width 100 and height
  100, rotated by 0, 90, 180 and 270 degrees, in this order. The four targets of a file are
  the one label derived from its name. So the size is four times the number of source
  images. When the libraries keep shapes as documented and the decoded images have three
  channels, every stored image has shape \<open>(100, 100, 3)\<close>.
\<close>

theorem station_rotations:
  assumes "T2RDataset lib (Some (Folder folders)) ''station'' = Inr ds"
  shows "list_all (\<lambda>(filename, node). decodes node) (visited_files folders) \<and>
         data ds = concat (map (\<lambda>(filename, node).
                     map (ndimage_rotate lib (cv2_resize lib (the (cv2_imread node)) (100, 100)))
                       [0, 90, 180, 270]) (visited_files folders)) \<and>
         targets ds = concat (map (\<lambda>(filename, node).
                     replicate 4 (dict_get color_mapping (hd (py_split CHR ''-'' filename)) 0))
                       (visited_files folders)) \<and>
         len ds = 4 * length (visited_files folders) \<and>
         (shape_contract lib \<and>
          list_all (\<lambda>(filename, node). bgr_image lib (the (cv2_imread node))) (visited_files folders)
            \<longrightarrow> list_all (\<lambda>x. shape lib x = [100, 100, 3]) (data ds))"
proof -
  have st: "reads_images ''station''" by (simp add: reads_images_def)
  note facts = T2RDataset_Inr [OF assms]
  have dec: "list_all (\<lambda>(filename, node). decodes node) (visited_files folders)"
    using facts(2) [OF st] .
  have same: "map (\<lambda>(filename, node). file_images lib ''station'' node) (visited_files folders) =
     map (\<lambda>(filename, node).
        map (ndimage_rotate lib (cv2_resize lib (the (cv2_imread node)) (100, 100)))
          [0, 90, 180, 270]) (visited_files folders)"
    using dec
    by (intro map_cong refl)
       (auto simp: list_all_iff file_images_def station_images_def decodes_def)
  have d: "data ds = concat (map (\<lambda>(filename, node).
                     map (ndimage_rotate lib (cv2_resize lib (the (cv2_imread node)) (100, 100)))
                       [0, 90, 180, 270]) (visited_files folders))"
    using facts(3) same by simp
  have t: "targets ds = concat (map (\<lambda>(filename, node).
                     replicate 4 (dict_get color_mapping (hd (py_split CHR ''-'' filename)) 0))
                       (visited_files folders))"
    using facts(4) by (simp add: file_targets_def target_of_def filename_label_def)
  have l: "len ds = 4 * length (visited_files folders)"
    unfolding len_def d by (rule length_concat_const) auto
  have s: "list_all (\<lambda>x. shape lib x = [100, 100, 3]) (data ds)"
    if c: "shape_contract lib"
      and b: "list_all (\<lambda>(filename, node). bgr_image lib (the (cv2_imread node))) (visited_files folders)"
  proof -
    have "shape lib x = [100, 100, 3]" if "x \<in> set (data ds)" for x
    proof -
      from that d obtain filename node angle where
        v: "(filename, node) \<in> set (visited_files folders)" and
        x: "x = ndimage_rotate lib (cv2_resize lib (the (cv2_imread node)) (100, 100)) angle"
        by auto
      from b v have "bgr_image lib (the (cv2_imread node))"
        by (auto simp: list_all_iff)
      with c x show ?thesis
        by (simp add: shape_contract_def drop2_bgr)
    qed
    then show ?thesis by (simp add: list_all_iff)
  qed
  from dec d t l s show ?thesis by blast
qed

theorem station_rotations_witness:
  "\<exists>ds. T2RDataset shape_lib sample_root ''station'' = Inr ds \<and>
      len ds = 4 * 3 \<and>
      targets ds = [4, 4, 4, 4, 0, 0, 0, 0, 0, 0, 0, 0] \<and>
      list_all (\<lambda>x. shape shape_lib x = [100, 100, 3]) (data ds)"
proof -
  let ?folders = "[(''.DS_Store'', OtherFile),
        (''session1'', Folder [(''red-1.png'', photo), (''.DS_Store'', OtherFile)]),
        (''session2'', Folder [(''foo-1.png'', photo), (''Blue-2.png'', photo)])]"
  let ?ds = "\<lparr>data =
        [([100, 100, 3], 0), ([100, 100, 3], 90), ([100, 100, 3], 180), ([100, 100, 3], 270),
         ([100, 100, 3], 0), ([100, 100, 3], 90), ([100, 100, 3], 180), ([100, 100, 3], 270),
         ([100, 100, 3], 0), ([100, 100, 3], 90), ([100, 100, 3], 180), ([100, 100, 3], 270)],
        targets = [4, 4, 4, 4, 0, 0, 0, 0, 0, 0, 0, 0]\<rparr> :: (nat list \<times> int) t2rdataset"
  have run: "T2RDataset shape_lib (Some (Folder ?folders)) ''station'' = Inr ?ds"
    by (simp add: T2RDataset_def load_data_def empty_dataset_def load_station_image_def
        append_rotation_def shape_lib_def photo_def filename_label_def dict_get_def
        color_mapping_def)
  have vis: "visited_files ?folders =
      [(''red-1.png'', photo), (''foo-1.png'', photo), (''Blue-2.png'', photo)]"
    by (simp add: visited_files_def not_skipped_def)
  have con: "shape_contract shape_lib"
    by (simp add: shape_contract_def shape_lib_def split: prod.splits)
  have bgr: "list_all (\<lambda>(filename, node). bgr_image shape_lib (the (cv2_imread node)))
      (visited_files ?folders)"
    unfolding vis by (simp add: photo_def bgr_image_def shape_lib_def)
  from station_rotations [OF run] con bgr
  have "len ?ds = 4 * length (visited_files ?folders)"
    and "list_all (\<lambda>x. shape shape_lib x = [100, 100, 3]) (data ?ds)"
    by blast+
  with run vis show ?thesis
    by (simp add: sample_root_def)
qed

lemma visited_files_iff:
  "(filename, node) \<in> set (visited_files folders) \<longleftrightarrow>
     filename \<noteq> ''.DS_Store'' \<and>
     (\<exists>folder files. folder \<noteq> ''.DS_Store'' \<and> (folder, Folder files) \<in> set folders \<and>
        (filename, node) \<in> set files)"
proof (induction folders)
  case Nil
  show ?case by (simp add: visited_files_Nil)
next
  case (Cons entry folders)
  obtain folder nd where entry: "entry = (folder, nd)" by (cases entry)
  show ?case
  proof (cases nd)
    case (Folder files)
    with Cons entry show ?thesis
      by (auto simp: visited_files_Cons not_skipped_def)
  qed (use Cons entry in \<open>auto simp: visited_files_Cons not_skipped_def\<close>)
qed

lemma load_files_error:
  "load_files lib dtype self files = Inl err \<Longrightarrow> err = CvError"
  by (simp add: load_files_eq split: if_splits)

lemma load_folders_error:
  "load_folders lib dtype self folders = Inl err \<Longrightarrow> err = NotADirectoryError \<or> err = CvError"
proof (induction folders arbitrary: self)
  case Nil
  then show ?case by simp
next
  case (Cons entry folders)
  obtain folder node where entry: "entry = (folder, node)" by (cases entry)
  show ?case
  proof (cases "folder = ''.DS_Store''")
    case True
    with Cons entry show ?thesis by simp
  next
    case False
    show ?thesis
    proof (cases node)
      case (Folder files)
      show ?thesis
      proof (cases "load_files lib dtype self files")
        case (Inl e)
        with Cons.prems entry False Folder load_files_error [OF Inl] show ?thesis by simp
      next
        case (Inr self')
        with Cons.prems entry False Folder Cons.IH [of self'] show ?thesis by simp
      qed
    qed (use Cons.prems entry False in simp_all)
  qed
qed

text \<open>
  Claim C9, amended. The traversal skips exactly the entries named \<open>.DS_Store\<close>, among the
  entries of the root and among the entries of every folder it enters; no other entry,
  hidden or not, is skipped. For the entity types \<open>'station'\<close> and \<open>'train'\<close> the
  constructor returns exactly when every other entry of the root is a folder and every
  other file in those folders decodes; otherwise it raises \<open>NotADirectoryError\<close> or
  \<open>cv2.error\<close>. When it returns, the dataset holds the samples of exactly the visited
  files, in traversal order: every file not named \<open>.DS_Store\<close> in every folder not named
  \<open>.DS_Store\<close> contributes samples (four for stations, one for trains), and an entry
  named \<open>.DS_Store\<close>, or below a folder of that name, contributes none.
\<close>

theorem traversal_skip_rule:
  assumes "dtype = ''station'' \<or> dtype = ''train''"
  shows "(T2RDataset lib (Some (Folder folders)) dtype = Inr ds \<longrightarrow>
            data ds = concat (map (\<lambda>(filename, node). file_images lib dtype node) (visited_files folders)) \<and>
            targets ds = concat (map (\<lambda>(filename, node). file_targets dtype filename) (visited_files folders)) \<and>
            list_all (\<lambda>(filename, node). file_images lib dtype node \<noteq> [] \<and> file_targets dtype filename \<noteq> [])
              (visited_files folders) \<and>
            len ds = (if dtype = ''station'' then 4 else 1) * length (visited_files folders)) \<and>
         ((\<exists>ds'. T2RDataset lib (Some (Folder folders)) dtype = Inr ds') \<longleftrightarrow>
            list_all (\<lambda>(folder, node). is_folder node) (not_skipped folders) \<and>
            list_all (\<lambda>(filename, node). decodes node) (visited_files folders)) \<and>
         (\<forall>err. T2RDataset lib (Some (Folder folders)) dtype = Inl err \<longrightarrow>
            err = NotADirectoryError \<or> err = CvError) \<and>
         (\<forall>filename node. (filename, node) \<in> set (visited_files folders) \<longleftrightarrow>
            filename \<noteq> ''.DS_Store'' \<and>
            (\<exists>folder files. folder \<noteq> ''.DS_Store'' \<and> (folder, Folder files) \<in> set folders \<and>
               (filename, node) \<in> set files))"
proof -
  from assms have rd: "reads_images dtype" by (simp add: reads_images_def)
  have one: "data ds = concat (map (\<lambda>(filename, node). file_images lib dtype node) (visited_files folders)) \<and>
            targets ds = concat (map (\<lambda>(filename, node). file_targets dtype filename) (visited_files folders)) \<and>
            list_all (\<lambda>(filename, node). file_images lib dtype node \<noteq> [] \<and> file_targets dtype filename \<noteq> [])
              (visited_files folders) \<and>
            len ds = (if dtype = ''station'' then 4 else 1) * length (visited_files folders)"
    if run: "T2RDataset lib (Some (Folder folders)) dtype = Inr ds"
  proof -
    note facts = T2RDataset_Inr [OF run]
    have dec: "list_all (\<lambda>(filename, node). decodes node) (visited_files folders)"
      using facts(2) [OF rd] .
    have ne: "list_all (\<lambda>(filename, node). file_images lib dtype node \<noteq> [] \<and> file_targets dtype filename \<noteq> [])
           (visited_files folders)"
      using dec assms
      by (auto simp: list_all_iff decodes_def file_images_def file_targets_def
          station_images_def train_images_def)
    have "length (case x of (filename, node) \<Rightarrow> file_images lib dtype node) =
        (if dtype = ''station'' then 4 else 1)" if "x \<in> set (visited_files folders)" for x
      using dec assms that
      by (auto simp: list_all_iff decodes_def file_images_def station_images_def train_images_def)
    then have l: "len ds = (if dtype = ''station'' then 4 else 1) * length (visited_files folders)"
      unfolding len_def facts(3) by (rule length_concat_const)
    from facts(3,4) ne l show ?thesis by blast
  qed
  have two: "(\<exists>ds'. T2RDataset lib (Some (Folder folders)) dtype = Inr ds') \<longleftrightarrow>
            list_all (\<lambda>(folder, node). is_folder node) (not_skipped folders) \<and>
            list_all (\<lambda>(filename, node). decodes node) (visited_files folders)"
  proof
    assume "\<exists>ds'. T2RDataset lib (Some (Folder folders)) dtype = Inr ds'"
    then obtain ds' where "T2RDataset lib (Some (Folder folders)) dtype = Inr ds'" ..
    from T2RDataset_Inr(1) [OF this] T2RDataset_Inr(2) [OF this rd]
    show "list_all (\<lambda>(folder, node). is_folder node) (not_skipped folders) \<and>
            list_all (\<lambda>(filename, node). decodes node) (visited_files folders)" ..
  next
    assume "list_all (\<lambda>(folder, node). is_folder node) (not_skipped folders) \<and>
            list_all (\<lambda>(filename, node). decodes node) (visited_files folders)"
    then show "\<exists>ds'. T2RDataset lib (Some (Folder folders)) dtype = Inr ds'"
      using T2RDataset_well_formed [of folders dtype lib] by simp
  qed
  have three: "err = NotADirectoryError \<or> err = CvError"
    if "T2RDataset lib (Some (Folder folders)) dtype = Inl err" for err
    using that load_folders_error [of lib dtype empty_dataset folders err]
    by (simp add: T2RDataset_def load_data_def)
  from one two three visited_files_iff [of _ _ folders] show ?thesis
    by blast
qed

theorem traversal_skip_rule_witness:
  "(\<exists>ds. T2RDataset shape_lib sample_root ''train'' = Inr ds \<and>
      data ds = [([50, 125, 3], 0), ([50, 125, 3], 0), ([50, 125, 3], 0)] \<and>
      targets ds = [4, 0, 0] \<and>
      len ds = 1 * 3) \<and>
   \<not> (\<exists>ds. T2RDataset shape_lib thumbs_root ''train'' = Inr ds)"
proof -
  let ?folders = "[(''.DS_Store'', OtherFile),
        (''session1'', Folder [(''red-1.png'', photo), (''.DS_Store'', OtherFile)]),
        (''session2'', Folder [(''foo-1.png'', photo), (''Blue-2.png'', photo)])]"
  let ?ds = "\<lparr>data = [([50, 125, 3], 0), ([50, 125, 3], 0), ([50, 125, 3], 0)],
              targets = [4, 0, 0]\<rparr> :: (nat list \<times> int) t2rdataset"
  have run: "T2RDataset shape_lib (Some (Folder ?folders)) ''train'' = Inr ?ds"
    by (simp add: T2RDataset_def load_data_def empty_dataset_def load_train_image_def
        shape_lib_def photo_def filename_label_def dict_get_def color_mapping_def)
  have vis: "visited_files ?folders =
      [(''red-1.png'', photo), (''foo-1.png'', photo), (''Blue-2.png'', photo)]"
    by (simp add: visited_files_def not_skipped_def)
  from traversal_skip_rule [of "''train''" shape_lib ?folders ?ds] run
  have "len ?ds = (if ''train'' = ''station'' then 4 else 1) * length (visited_files ?folders)"
    by blast
  with run vis have one: "\<exists>ds. T2RDataset shape_lib sample_root ''train'' = Inr ds \<and>
      data ds = [([50, 125, 3], 0), ([50, 125, 3], 0), ([50, 125, 3], 0)] \<and>
      targets ds = [4, 0, 0] \<and> len ds = 1 * 3"
    by (simp add: sample_root_def)
  let ?t = "[(''session1'', Folder [(''Thumbs.db'', OtherFile :: (nat list \<times> int) fsnode)])]"
  have "\<not> list_all (\<lambda>(filename, node). decodes node) (visited_files ?t)"
    by (simp add: visited_files_def not_skipped_def decodes_def)
  with traversal_skip_rule [of "''train''" shape_lib ?t]
  have two: "\<not> (\<exists>ds. T2RDataset shape_lib thumbs_root ''train'' = Inr ds)"
    unfolding thumbs_root_def by blast
  from one two show ?thesis ..
qed

text \<open>
  Claim C9, as the specification states it, fails on the code: the only entries skipped are
  those named \<open>.DS_Store\<close>. A hidden file \<open>.red-1.png\<close> is visited and contributes four
  station samples; a thumbnail cache \<open>Thumbs.db\<close> in a subfolder is visited and makes the
  constructor raise \<open>cv2.error\<close>; a hidden file \<open>.gitkeep\<close> in the root is taken for a
  subfolder and makes it raise \<open>NotADirectoryError\<close>.
\<close>

theorem hidden_entries_are_visited:
  "is_hidden ''.red-1.png'' \<and>
   (\<exists>ds. T2RDataset shape_lib hidden_image_root ''station'' = Inr ds \<and>
      len ds = 4 \<and> targets ds = [0, 0, 0, 0]) \<and>
   T2RDataset shape_lib thumbs_root ''station'' = Inl CvError \<and>
   T2RDataset shape_lib (Some (Folder [(''.gitkeep'', OtherFile)])) ''station'' =
     Inl NotADirectoryError"
  by (simp add: is_hidden_def hidden_image_root_def thumbs_root_def T2RDataset_def load_data_def
      empty_dataset_def load_station_image_def append_rotation_def shape_lib_def photo_def
      filename_label_def dict_get_def color_mapping_def len_def)




section \<open>Properties of the split\<close>

lemma round_half_even_bounds:
  assumes "0 \<le> M" and "M < c * 2 ^ s"
  shows "0 \<le> round_half_even M s \<and> round_half_even M s \<le> c"
proof -
  have q0: "0 \<le> M div 2 ^ s"
    using assms(1) by (simp add: pos_imp_zdiv_nonneg_iff)
  have "2 ^ s * (M div 2 ^ s) + M mod 2 ^ s = M"
    by (rule mult_div_mod_eq)
  moreover have "0 \<le> M mod (2 ^ s :: int)"
    by simp
  ultimately have "2 ^ s * (M div 2 ^ s) \<le> M"
    by linarith
  then have "M div 2 ^ s * 2 ^ s \<le> M"
    by (simp add: mult.commute)
  with assms(2) have "M div 2 ^ s * 2 ^ s < c * 2 ^ s" by linarith
  then have "M div 2 ^ s < c" by simp
  with q0 show ?thesis
    by (auto simp: round_half_even_def Let_def)
qed

lemma round_half_even_0: "round_half_even M 0 = M"
  by (simp add: round_half_even_def)

lemma float_of_int_small:
  assumes "0 \<le> N" and "N < 2 ^ 53"
  shows "float_of_int N = Inr (Finite N 0)"
proof -
  from assms have b: "bitlen N \<le> 53"
    by (simp add: bitlen_le_iff_power)
  then have s: "nat (max 0 (max (bitlen \<bar>N\<bar> - 53) (- 1074 - 0))) = 0"
    using assms(1) by simp
  have "round_double N 0 = Finite N 0"
    unfolding round_double_def s Let_def round_half_even_0
    using b assms(1) by simp
  then show ?thesis by (simp add: float_of_int_def)
qed

lemma train_size_bounds:
  assumes "in_open_unit_interval f" and "0 < N" and "N < 2 ^ 53"
  shows "\<exists>t. py_int (float_mul f (Finite N 0)) = Inr t \<and> 0 \<le> t \<and> t \<le> N"
proof -
  from assms(1) obtain m e where f: "f = Finite m e" and m0: "0 < m" and e0: "e < 0"
    and m1: "m < 2 ^ nat (- e)"
    by (cases f) auto
  define k where "k = nat (- e)"
  define M where "M = m * N"
  define s where "s = nat (max 0 (max (bitlen \<bar>M\<bar> - 53) (- 1074 - e)))"
  define m' where "m' = round_half_even M s"
  have ek: "e = - int k" and k0: "0 < k" using e0 by (simp_all add: k_def)
  have M0: "0 < M" using m0 assms(2) by (simp add: M_def)
  have "M < 2 ^ k * N" unfolding M_def
    using m1 assms(2) by (simp add: k_def)
  then have Mk: "M < N * 2 ^ k" by (simp add: mult.commute)
  also have "\<dots> < 2 ^ 53 * 2 ^ k" using assms(3) by simp
  finally have "M < 2 ^ (53 + k)" by (simp add: power_add)
  then have "bitlen M \<le> 53 + int k"
    by (simp add: bitlen_le_iff_power nat_add_distrib)
  then have sk: "s \<le> k"
    using M0 by (simp add: s_def ek)
  have "M < (N * 2 ^ (k - s)) * 2 ^ s"
    using Mk sk by (simp add: mult.assoc flip: power_add)
  with M0 have m'b: "0 \<le> m'" "m' \<le> N * 2 ^ (k - s)"
    using round_half_even_bounds [of M "N * 2 ^ (k - s)" s] by (simp_all add: m'_def)
  have "N * 2 ^ (k - s) < 2 ^ 53 * 2 ^ (k - s)" using assms(3) by simp
  with m'b(2) have "m' < 2 ^ 53 * 2 ^ (k - s)" by (rule le_less_trans)
  then have "m' < 2 ^ (53 + (k - s))" by (simp add: power_add)
  then have "bitlen m' \<le> 53 + int (k - s)"
    by (simp add: bitlen_le_iff_power nat_add_distrib)
  then have nov: "\<not> 1024 < bitlen \<bar>m'\<bar> + (e + int s)"
    using m'b(1) sk by (simp add: ek)
  have mul: "float_mul f (Finite N 0) = Finite m' (e + int s)"
    using nov by (simp add: f round_double_def Let_def M_def [symmetric] s_def [symmetric]
        m'_def [symmetric])
  have es: "e + int s = - int (k - s)" using sk by (simp add: ek)
  show ?thesis
  proof (cases "k = s")
    case True
    with m'b mul es show ?thesis by simp
  next
    case False
    with sk have ks: "0 < k - s" by simp
    have "m' div 2 ^ (k - s) \<le> (N * 2 ^ (k - s)) div 2 ^ (k - s)"
      using m'b(2) by (intro zdiv_mono1) simp_all
    then have "m' div 2 ^ (k - s) \<le> N" by simp
    moreover have "0 \<le> m' div 2 ^ (k - s)"
      using m'b(1) by (simp add: pos_imp_zdiv_nonneg_iff)
    moreover have "nat (int (k - s)) = k - s" by simp
    ultimately show ?thesis
      unfolding mul es using ks m'b(1) by (simp del: of_nat_diff)
  qed
qed

lemma py_slice_prefix:
  "py_slice xs 0 t = take (split_point (length xs) t) xs"
  by (simp add: py_slice_def split_point_def Let_def)

lemma py_slice_suffix:
  "py_slice xs t (int (length xs)) = drop (split_point (length xs) t) xs"
  by (auto simp: py_slice_def split_point_def Let_def)

lemma random_split_two:
  assumes "length (randperm n) = n"
  shows "random_split n [t, int n - t] randperm =
     (if n = 1 \<and> (t < 0 \<or> 1 < t) then Inl ValueError
      else Inr [take (split_point n t) (randperm n), drop (split_point n t) (randperm n)])"
proof (cases "n = 1")
  case True
  show ?thesis
  proof (cases "t < 0 \<or> 1 < t")
    case True
    with \<open>n = 1\<close> show ?thesis
      by (auto simp: random_split_def fraction_lengths_def)
  next
    case False
    then have fr: "fraction_lengths (Suc 0) [t, 1 - t] = Inr [t, 1 - t]"
      by (auto simp: fraction_lengths_def)
    from assms \<open>n = 1\<close> have len: "length (randperm (Suc 0)) = Suc 0" by simp
    from False \<open>n = 1\<close> show ?thesis
      using py_slice_prefix [of "randperm 1" t] py_slice_suffix [of "randperm 1" t] len
      by (simp add: random_split_def fr accumulate_def Let_def)
  qed
next
  case False
  then show ?thesis
    using py_slice_prefix [of "randperm n" t] py_slice_suffix [of "randperm n" t] assms
    by (simp add: random_split_def accumulate_def Let_def)
qed

lemma is_randperm_length: "is_randperm randperm \<Longrightarrow> length (randperm n) = n"
proof -
  assume "is_randperm randperm"
  then have "distinct (randperm n)" and "set (randperm n) = {0..<n}"
    by (simp_all add: is_randperm_def)
  then show ?thesis
    using distinct_card [of "randperm n"] by simp
qed

lemma take_drop_partition:
  assumes "distinct xs"
  shows "set (take j xs) \<inter> set (drop j xs) = {}"
    and "set (take j xs) \<union> set (drop j xs) = set xs"
    and "distinct (take j xs)" and "distinct (drop j xs)"
proof -
  from assms have "distinct (take j xs @ drop j xs)" by simp
  then show "set (take j xs) \<inter> set (drop j xs) = {}"
    and "distinct (take j xs)" and "distinct (drop j xs)"
    unfolding distinct_append by simp_all
  have "set (take j xs @ drop j xs) = set xs" by simp
  then show "set (take j xs) \<union> set (drop j xs) = set xs"
    unfolding set_append .
qed

lemma split_data_eq:
  assumes "is_randperm randperm"
  shows "split_data self f randperm =
     (case train_size_of f (len self) of
        Inl e \<Rightarrow> Inl e
      | Inr t \<Rightarrow>
          if len self = 1 \<and> (t < 0 \<or> 1 < t) then Inl ValueError
          else Inr (take (split_point (len self) t) (randperm (len self)),
                    drop (split_point (len self) t) (randperm (len self))))"
proof -
  have "length (randperm (len self)) = len self"
    by (rule is_randperm_length [OF assms])
  note rs = random_split_two [of randperm "len self", OF this]
  show ?thesis
  proof (cases "train_size_of f (len self)")
    case (Inl e)
    then show ?thesis by (simp add: split_data_def len_def)
  next
    case (Inr t)
    have "split_data self f randperm =
       (case random_split (len self) [t, int (len self) - t] randperm of
          Inl e \<Rightarrow> Inl e
        | Inr [train_dataset, test_dataset] \<Rightarrow> Inr (train_dataset, test_dataset)
        | Inr _ \<Rightarrow> Inl ValueError)"
      using Inr by (simp add: split_data_def len_def Let_def)
    also have "\<dots> = (if len self = 1 \<and> (t < 0 \<or> 1 < t) then Inl ValueError
          else Inr (take (split_point (len self) t) (randperm (len self)),
                    drop (split_point (len self) t) (randperm (len self))))"
      unfolding rs [of t] by simp
    finally show ?thesis using Inr by simp
  qed
qed

lemma train_size_of_unit:
  assumes "in_open_unit_interval f" and "0 < n" and "n < 2 ^ 53"
  shows "\<exists>t. train_size_of f n = Inr (int t) \<and> t \<le> n"
proof -
  from assms(2,3) have n: "0 < int n" "int n < 2 ^ 53" 
    by (simp, metis of_nat_less_iff of_nat_numeral of_nat_power)
  from train_size_bounds [OF assms(1) n] obtain t where
    "py_int (float_mul f (Finite (int n) 0)) = Inr t" "0 \<le> t" "t \<le> int n"
    by blast
  moreover from n have "float_of_int (int n) = Inr (Finite (int n) 0)"
    by (intro float_of_int_small) simp_all
  ultimately have "train_size_of f n = Inr (int (nat t)) \<and> nat t \<le> n"
    by (simp add: train_size_of_def)
  then show ?thesis by blast
qed

lemma spec_train_size_div:
  assumes "e < 0"
  shows "spec_train_size (Finite m e) N = (m * int N) div 2 ^ nat (- e)"
proof -
  have "float_value (Finite m e) * real N = real_of_int (m * int N) / real_of_int (2 ^ nat (- e))"
    using assms by simp
  then show ?thesis
    unfolding spec_train_size_def by (simp only: floor_divide_of_int_eq)
qed

lemma round_half_even_near:
  "round_half_even M s = M div 2 ^ s \<or> round_half_even M s = M div 2 ^ s + 1"
  by (simp add: round_half_even_def Let_def)

lemma div_succ_le:
  fixes q :: int
  assumes "0 < d"
  shows "q div d \<le> (q + 1) div d" and "(q + 1) div d \<le> q div d + 1"
proof -
  show "q div d \<le> (q + 1) div d"
    using assms by (intro zdiv_mono1) simp_all
  have "(q + 1) div d \<le> (q + d) div d"
    using assms by (intro zdiv_mono1) simp_all
  also have "\<dots> = q div d + 1"
    using assms by simp
  finally show "(q + 1) div d \<le> q div d + 1" .
qed

lemma train_size_exact:
  assumes "in_open_unit_interval (Finite m e)" and "0 < N" and "N < 2 ^ 53"
  shows "\<exists>t. py_int (float_mul (Finite m e) (Finite N 0)) = Inr t \<and>
           (m * N) div 2 ^ nat (- e) \<le> t \<and> t \<le> (m * N) div 2 ^ nat (- e) + 1 \<and>
           (m * N < 2 ^ 53 \<and> - 1074 \<le> e \<longrightarrow> t = (m * N) div 2 ^ nat (- e))"
proof -
  from assms(1) have m0: "0 < m" and e0: "e < 0" and m1: "m < 2 ^ nat (- e)"
    by auto
  define k where "k = nat (- e)"
  define M where "M = m * N"
  define s where "s = nat (max 0 (max (bitlen \<bar>M\<bar> - 53) (- 1074 - e)))"
  define m' where "m' = round_half_even M s"
  have ek: "e = - int k" and k0: "0 < k" using e0 by (simp_all add: k_def)
  have M0: "0 < M" using m0 assms(2) by (simp add: M_def)
  have "M < 2 ^ k * N" unfolding M_def
    using m1 assms(2) by (simp add: k_def)
  then have Mk: "M < N * 2 ^ k" by (simp add: mult.commute)
  also have "\<dots> < 2 ^ 53 * 2 ^ k" using assms(3) by simp
  finally have "M < 2 ^ (53 + k)" by (simp add: power_add)
  then have "bitlen M \<le> 53 + int k"
    by (simp add: bitlen_le_iff_power nat_add_distrib)
  then have sk: "s \<le> k"
    using M0 by (simp add: s_def ek)
  have "M < (N * 2 ^ (k - s)) * 2 ^ s"
    using Mk sk by (simp add: mult.assoc flip: power_add)
  with M0 have m'b: "0 \<le> m'" "m' \<le> N * 2 ^ (k - s)"
    using round_half_even_bounds [of M "N * 2 ^ (k - s)" s] by (simp_all add: m'_def)
  have "N * 2 ^ (k - s) < 2 ^ 53 * 2 ^ (k - s)" using assms(3) by simp
  with m'b(2) have "m' < 2 ^ 53 * 2 ^ (k - s)" by (rule le_less_trans)
  then have "m' < 2 ^ (53 + (k - s))" by (simp add: power_add)
  then have "bitlen m' \<le> 53 + int (k - s)"
    by (simp add: bitlen_le_iff_power nat_add_distrib)
  then have nov: "\<not> 1024 < bitlen \<bar>m'\<bar> + (e + int s)"
    using m'b(1) sk by (simp add: ek)
  have mul: "float_mul (Finite m e) (Finite N 0) = Finite m' (e + int s)"
    using nov by (simp add: round_double_def Let_def M_def [symmetric] s_def [symmetric]
        m'_def [symmetric])
  have es: "e + int s = - int (k - s)" using sk by (simp add: ek)
  define t where "t = m' div 2 ^ (k - s)"
  have pt: "py_int (float_mul (Finite m e) (Finite N 0)) = Inr t"
  proof (cases "k = s")
    case True
    with mul es show ?thesis by (simp add: t_def)
  next
    case False
    with sk have ks: "0 < k - s" by simp
    have "nat (int (k - s)) = k - s" by simp
    then show ?thesis
      unfolding mul es t_def using ks m'b(1) by (simp del: of_nat_diff)
  qed
  have split: "M div 2 ^ k = (M div 2 ^ s) div 2 ^ (k - s)"
  proof -
    have "(2::int) ^ k = 2 ^ s * 2 ^ (k - s)"
      using sk by (simp flip: power_add)
    then show ?thesis
      by (simp add: zdiv_zmult2_eq)
  qed
  have near: "m' = M div 2 ^ s \<or> m' = M div 2 ^ s + 1"
    unfolding m'_def by (rule round_half_even_near)
  have lo: "M div 2 ^ k \<le> t" and hi: "t \<le> M div 2 ^ k + 1"
    using near div_succ_le [of "2 ^ (k - s)" "M div 2 ^ s"]
    unfolding split t_def by auto
  have ex: "t = M div 2 ^ k" if "M < 2 ^ 53" "- 1074 \<le> e"
  proof -
    from that(1) M0 have "bitlen \<bar>M\<bar> \<le> 53"
      by (simp add: bitlen_le_iff_power)
    with that(2) have "s = 0" by (simp add: s_def)
    then show ?thesis
      by (simp add: t_def m'_def round_half_even_0)
  qed
  from pt lo hi ex show ?thesis
    unfolding M_def k_def by blast
qed

text \<open>
  Claim C1, amended. For every dataset of size \<open>N > 0\<close> and every train fraction strictly
  between 0 and 1, \<open>split_data\<close> returns two index lists, each without repetition, that
  are disjoint and whose union is the index range \<open>[0, N)\<close>. The first has
  \<open>int(train_percentage * N)\<close> elements, the product being formed in double precision:
  this is the floor of the exact product or one more, and it is the floor of the exact
  product whenever the product needs no rounding (the fraction being \<open>m * 2 ^ e\<close> with
  \<open>m * N < 2 ^ 53\<close>). The second has the remaining \<open>N\<close> minus that many. The bound
  \<open>N < 2 ^ 53\<close> holds of every list a machine can store; below it the conversion of
  \<open>N\<close> to a float is exact.
\<close>

theorem split_data_partition:
  assumes "in_open_unit_interval (Finite m e)" and "0 < len self" and "len self < 2 ^ 53"
    and "is_randperm randperm"
  shows "\<exists>train test. split_data self (Finite m e) randperm = Inr (train, test) \<and>
           set train \<inter> set test = {} \<and>
           set train \<union> set test = {0..<len self} \<and>
           distinct train \<and> distinct test \<and>
           train_size_of (Finite m e) (len self) = Inr (int (length train)) \<and>
           spec_train_size (Finite m e) (len self) \<le> int (length train) \<and>
           int (length train) \<le> spec_train_size (Finite m e) (len self) + 1 \<and>
           (m * int (len self) < 2 ^ 53 \<and> - 1074 \<le> e \<longrightarrow>
              int (length train) = spec_train_size (Finite m e) (len self)) \<and>
           length test = len self - length train"
proof -
  from train_size_of_unit [OF assms(1-3)] obtain t where
    t: "train_size_of (Finite m e) (len self) = Inr (int t)" and tn: "t \<le> len self"
    by blast
  from assms(2,3) have n: "0 < int (len self)" "int (len self) < 2 ^ 53"
    by (simp, metis of_nat_less_iff of_nat_numeral of_nat_power)
  from assms(1) have e0: "e < 0" by simp
  from n have "float_of_int (int (len self)) = Inr (Finite (int (len self)) 0)"
    by (intro float_of_int_small) simp_all
  with t have pt: "py_int (float_mul (Finite m e) (Finite (int (len self)) 0)) = Inr (int t)"
    by (simp add: train_size_of_def)
  from train_size_exact [OF assms(1) n] pt
  have br: "(m * int (len self)) div 2 ^ nat (- e) \<le> int t"
    "int t \<le> (m * int (len self)) div 2 ^ nat (- e) + 1"
    "m * int (len self) < 2 ^ 53 \<and> - 1074 \<le> e \<longrightarrow> int t = (m * int (len self)) div 2 ^ nat (- e)"
    by auto
  note sp = spec_train_size_div [OF e0, of m "len self"]
  let ?p = "randperm (len self)"
  from assms(4) have d: "distinct ?p" and s: "set ?p = {0..<len self}"
    by (simp_all add: is_randperm_def)
  have l: "length ?p = len self" by (rule is_randperm_length [OF assms(4)])
  have spt: "split_point (len self) (int t) = t"
    using tn by (simp add: split_point_def)
  have nv: "\<not> (len self = 1 \<and> (int t < 0 \<or> 1 < int t))"
    using tn by auto
  have run: "split_data self (Finite m e) randperm = Inr (take t ?p, drop t ?p)"
    using nv by (simp add: split_data_eq [OF assms(4)] t spt)
  have lt: "length (take t ?p) = t" using l tn by simp
  show ?thesis
    using run take_drop_partition [OF d, of t] s t l tn br
    unfolding sp
    by (intro exI [of _ "take t ?p"] exI [of _ "drop t ?p"]) (simp add: lt)
qed

lemma seven_tenths_100: "train_size_of seven_tenths 100 = Inr 70"
  by (simp add: train_size_of_def seven_tenths_def float_of_int_def round_double_def
      round_half_even_def Let_def compute_bitlen)

lemma is_randperm_descending: "is_randperm descending"
  by (simp add: is_randperm_def descending_def)

lemma len_dataset_of_size: "len (dataset_of_size n) = n"
  by (simp add: len_def dataset_of_size_def)

lemma half_10: "train_size_of (Finite 1 (- 1)) 10 = Inr 5"
  by (simp add: train_size_of_def float_of_int_def round_double_def
      round_half_even_def Let_def compute_bitlen)

theorem split_data_partition_witness:
  "(\<exists>train test. split_data (dataset_of_size 100) seven_tenths descending = Inr (train, test) \<and>
     length train = 70 \<and> length test = 30 \<and>
     set train \<inter> set test = {} \<and> set train \<union> set test = {0..<100}) \<and>
   (1 * int (len (dataset_of_size 10)) < 2 ^ 53 \<and> (- 1074 :: int) \<le> - 1) \<and>
   (\<exists>train test. split_data (dataset_of_size 10) (Finite 1 (- 1)) descending = Inr (train, test) \<and>
     int (length train) = spec_train_size (Finite 1 (- 1)) 10 \<and> length train = 5)"
proof -
  have "in_open_unit_interval (Finite 6305039478318694 (- 53))"
    by simp
  moreover have "0 < len (dataset_of_size 100)" "len (dataset_of_size 100) < 2 ^ 53"
    by (simp_all add: len_dataset_of_size)
  ultimately obtain train test where
    "split_data (dataset_of_size 100) seven_tenths descending = Inr (train, test)"
    "set train \<inter> set test = {}" "set train \<union> set test = {0..<len (dataset_of_size 100)}"
    "train_size_of seven_tenths (len (dataset_of_size 100)) = Inr (int (length train))"
    "length test = len (dataset_of_size 100) - length train"
    using split_data_partition [of 6305039478318694 "- 53" "dataset_of_size 100" descending]
      is_randperm_descending unfolding seven_tenths_def by blast
  then have one: "\<exists>train test. split_data (dataset_of_size 100) seven_tenths descending = Inr (train, test) \<and>
     length train = 70 \<and> length test = 30 \<and>
     set train \<inter> set test = {} \<and> set train \<union> set test = {0..<100}"
    by (simp add: len_dataset_of_size seven_tenths_100)
  have "in_open_unit_interval (Finite 1 (- 1))"
    by simp
  moreover have "0 < len (dataset_of_size 10)" "len (dataset_of_size 10) < 2 ^ 53"
    by (simp_all add: len_dataset_of_size)
  ultimately obtain train' test' where
    "split_data (dataset_of_size 10) (Finite 1 (- 1)) descending = Inr (train', test')"
    "train_size_of (Finite 1 (- 1)) (len (dataset_of_size 10)) = Inr (int (length train'))"
    "1 * int (len (dataset_of_size 10)) < 2 ^ 53 \<and> (- 1074 :: int) \<le> - 1 \<longrightarrow>
       int (length train') = spec_train_size (Finite 1 (- 1)) (len (dataset_of_size 10))"
    using split_data_partition [of 1 "- 1" "dataset_of_size 10" descending]
      is_randperm_descending by blast
  then have two: "\<exists>train test. split_data (dataset_of_size 10) (Finite 1 (- 1)) descending = Inr (train, test) \<and>
     int (length train) = spec_train_size (Finite 1 (- 1)) 10 \<and> length train = 5"
    by (simp add: len_dataset_of_size half_10)
  from one two show ?thesis
    by (simp add: len_dataset_of_size)
qed

lemma fifty_seven_100: "train_size_of fifty_seven_hundredths 100 = Inr 56"
  by (simp add: train_size_of_def fifty_seven_hundredths_def float_of_int_def round_double_def
      round_half_even_def Let_def compute_bitlen)

text \<open>
  Claim C1, as the specification states it, fails on the code: the size of the train subset is
  not always the floor of the product of the fraction and the size. The code forms the
  product in double precision and truncates the rounded result. With the default fraction,
  the double of \<open>0.7\<close>, on 100 samples the train subset has 70 indices, while the floor
  of the exact product of that double and 100 is 69. With the double of \<open>0.57\<close>, which is
  within half a unit in the last place of \<open>57 / 100\<close>, the train subset has 56 indices,
  while the floor of \<open>57 / 100\<close> times 100 is 57.
\<close>

theorem split_size_is_not_the_exact_floor:
  "in_open_unit_interval seven_tenths \<and>
   (\<exists>train test. split_data (dataset_of_size 100) seven_tenths descending = Inr (train, test) \<and>
      length train = 70) \<and>
   spec_train_size seven_tenths 100 = 69 \<and>
   in_open_unit_interval fifty_seven_hundredths \<and>
   (\<exists>train test. split_data (dataset_of_size 100) fifty_seven_hundredths descending = Inr (train, test) \<and>
      length train = 56) \<and>
   \<bar>float_value fifty_seven_hundredths - 57 / 100\<bar> \<le> 1 / 2 ^ 54 \<and>
   \<lfloor>(57 / 100 :: real) * 100\<rfloor> = 57"
proof -
  have a: "in_open_unit_interval seven_tenths" "in_open_unit_interval fifty_seven_hundredths"
    by (simp_all add: seven_tenths_def fifty_seven_hundredths_def)
  have b: "split_data (dataset_of_size 100) seven_tenths descending =
      Inr (take 70 (descending 100), drop 70 (descending 100))"
    by (simp add: split_data_eq [OF is_randperm_descending] len_dataset_of_size seven_tenths_100
        split_point_def)
  have c: "split_data (dataset_of_size 100) fifty_seven_hundredths descending =
      Inr (take 56 (descending 100), drop 56 (descending 100))"
    by (simp add: split_data_eq [OF is_randperm_descending] len_dataset_of_size fifty_seven_100
        split_point_def)
  have l: "length (take 70 (descending 100)) = 70" "length (take 56 (descending 100)) = 56"
    by (simp_all add: descending_def)
  have d: "spec_train_size seven_tenths 100 = 69"
    unfolding seven_tenths_def by (subst spec_train_size_div) simp_all
  have e: "\<bar>float_value fifty_seven_hundredths - 57 / 100\<bar> \<le> 1 / 2 ^ 54"
    by (simp add: fifty_seven_hundredths_def)
  have f: "\<lfloor>(57 / 100 :: real) * 100\<rfloor> = 57" by simp
  from a b c l d e f show ?thesis by simp
qed

lemma train_size_of_error:
  "train_size_of f n = Inl e \<Longrightarrow> e = ValueError \<or> e = OverflowError"
  by (cases f; cases "round_double (int n) 0")
     (auto simp: train_size_of_def float_of_int_def split: sum.splits if_splits
       elim: py_int.elims)

lemma train_size_of_empty:
  assumes "is_double (Finite m e)"
  shows "train_size_of (Finite m e) 0 = Inr 0"
proof -
  have "float_of_int 0 = Inr (Finite 0 0)"
    by (rule float_of_int_small) simp_all
  moreover from assms have "round_double 0 e = Finite 0 e"
    by (simp add: round_double_def round_half_even_def Let_def)
  ultimately show ?thesis
    by (simp add: train_size_of_def)
qed

text \<open>
  Claim C6, amended. \<open>split_data\<close> validates nothing and never fails on account of the
  fraction or of an empty dataset. On an empty dataset it returns two empty index lists,
  for every finite fraction. Whenever \<open>int(train_percentage * N)\<close> is defined, the fraction
  being inside \<open>(0, 1)\<close> or not, and \<open>N \<noteq> 1\<close>, it returns two index lists that are
  disjoint and cover \<open>[0, N)\<close>. The only errors it can raise are Python's own
  \<open>ValueError\<close> and \<open>OverflowError\<close> (from \<open>int\<close> of a NaN or an infinity, and
  from \<open>random_split\<close> on one sample with a length outside \<open>[0, 1]\<close>).
\<close>

theorem split_data_unchecked:
  assumes "is_randperm randperm"
  shows "(len self = 0 \<and> is_double (Finite m e) \<longrightarrow>
            split_data self (Finite m e) randperm = Inr ([], [])) \<and>
         (\<forall>t. train_size_of f (len self) = Inr t \<and> len self \<noteq> 1 \<longrightarrow>
            (\<exists>train test. split_data self f randperm = Inr (train, test) \<and>
               set train \<inter> set test = {} \<and> set train \<union> set test = {0..<len self})) \<and>
         (\<forall>err. split_data self f randperm = Inl err \<longrightarrow> err = ValueError \<or> err = OverflowError)"
proof (intro conjI allI impI)
  assume a: "len self = 0 \<and> is_double (Finite m e)"
  then have "train_size_of (Finite m e) (len self) = Inr 0"
    using train_size_of_empty by simp
  moreover have "length (randperm 0) = 0"
    by (rule is_randperm_length [OF assms])
  ultimately show "split_data self (Finite m e) randperm = Inr ([], [])"
    using a by (simp add: split_data_eq [OF assms])
next
  fix t
  assume a: "train_size_of f (len self) = Inr t \<and> len self \<noteq> 1"
  let ?p = "randperm (len self)"
  let ?j = "split_point (len self) t"
  from assms have d: "distinct ?p" and s: "set ?p = {0..<len self}"
    by (simp_all add: is_randperm_def)
  from a have "split_data self f randperm = Inr (take ?j ?p, drop ?j ?p)"
    by (simp add: split_data_eq [OF assms])
  with take_drop_partition(1,2) [OF d, of ?j] s
  show "\<exists>train test. split_data self f randperm = Inr (train, test) \<and>
               set train \<inter> set test = {} \<and> set train \<union> set test = {0..<len self}"
    by simp
next
  fix err
  assume "split_data self f randperm = Inl err"
  then show "err = ValueError \<or> err = OverflowError"
    using train_size_of_error [of f "len self"]
    by (auto simp: split_data_eq [OF assms] split: sum.splits if_splits)
qed

lemma one_10: "train_size_of (Finite 1 0) 10 = Inr 10"
  by (simp add: train_size_of_def float_of_int_def round_double_def
      round_half_even_def Let_def compute_bitlen)

lemma seven_tenths_0: "train_size_of seven_tenths 0 = Inr 0"
  by (simp add: train_size_of_def seven_tenths_def float_of_int_def round_double_def
      round_half_even_def Let_def compute_bitlen)

text \<open>
  Claim C6, as the specification states it, fails on the code: \<open>split_data\<close> checks
  neither argument. On an empty dataset, with the default fraction, it returns two empty
  index lists; with the fraction \<open>1.0\<close>, which is not inside \<open>(0, 1)\<close>, on ten samples
  it returns all ten indices for training and none for testing.
\<close>

theorem split_data_returns_without_check:
  "split_data (dataset_of_size 0) seven_tenths descending = Inr ([], []) \<and>
   \<not> in_open_unit_interval (Finite 1 0) \<and>
   split_data (dataset_of_size 10) (Finite 1 0) descending =
     Inr ([9, 8, 7, 6, 5, 4, 3, 2, 1, 0], [])"
  by (simp add: split_data_eq [OF is_randperm_descending] len_dataset_of_size one_10
      seven_tenths_0 split_point_def descending_def upt_rec [of _ "numeral _"])

theorem split_data_unchecked_witness:
  "train_size_of (Finite 3 (- 1)) (len (dataset_of_size 10)) = Inr 15 \<and>
   len (dataset_of_size 10) \<noteq> 1 \<and>
   (\<exists>train test. split_data (dataset_of_size 10) (Finite 3 (- 1)) descending = Inr (train, test) \<and>
      set train \<inter> set test = {} \<and> set train \<union> set test = {0..<10}) \<and>
   len (dataset_of_size 0) = 0 \<and> is_double (Finite 3 (- 1)) \<and>
   split_data (dataset_of_size 0) (Finite 3 (- 1)) descending = Inr ([], [])"
proof -
  have t: "train_size_of (Finite 3 (- 1)) (len (dataset_of_size 10)) = Inr 15"
    by (simp add: len_dataset_of_size train_size_of_def float_of_int_def round_double_def
      round_half_even_def Let_def compute_bitlen)
  from split_data_unchecked [OF is_randperm_descending,
      of "dataset_of_size 10" 3 "- 1" "Finite 3 (- 1)"] t
  have "\<exists>train test. split_data (dataset_of_size 10) (Finite 3 (- 1)) descending = Inr (train, test) \<and>
      set train \<inter> set test = {} \<and> set train \<union> set test = {0..<10}"
    by (simp add: len_dataset_of_size)
  moreover from split_data_unchecked [OF is_randperm_descending,
      of "dataset_of_size 0" 3 "- 1" "Finite 3 (- 1)"]
  have "split_data (dataset_of_size 0) (Finite 3 (- 1)) descending = Inr ([], [])"
    by (simp add: len_dataset_of_size)
  ultimately show ?thesis
    using t by (simp add: len_dataset_of_size)
qed

section \<open>Properties of the networks\<close>

lemma feature_extractor_shape:
  assumes "4 \<le> H" and "4 \<le> W"
  shows "forward_shape [Conv2d 3 15 3, ReLU, MaxPool2d 2, ReLU, Flatten] [3, H, W] =
     Inr [15 * ((H - 2) div 2) * ((W - 2) div 2)]"
proof -
  from assms have "(H - 3 + 1) div 2 \<noteq> 0" "(W - 3 + 1) div 2 \<noteq> 0"
    "H - 3 + 1 = H - 2" "W - 3 + 1 = W - 2" "\<not> H < 3" "\<not> W < 3"
    by simp_all
  then show ?thesis
    by (simp add: mult.assoc)
qed

text \<open>
  Claim C7. The width of the flattened features that reach the first dense layer is a
  function of the height \<open>H\<close> and width \<open>W\<close> of the input alone: after the unpadded 3 by 3
  convolution to 15 channels and the 2 by 2 max pooling it is
  \<open>15 * floor((H - 2) / 2) * floor((W - 2) / 2)\<close>, for every input the layers accept
  (\<open>H\<close> and \<open>W\<close> at least 4). At the train input size, 50 by 125, this is 21960, and at the
  station input size, 100 by 100, it is 36015: the input widths that the two networks give
  their first dense layer, which is the only layer in which they differ. Each network
  accepts the images of its entity type and maps them to 6 scores.
\<close>

theorem flattened_width:
  "(4 \<le> H \<and> 4 \<le> W \<longrightarrow>
      forward_shape (take 5 TrainsCNN) [3, H, W] = Inr [15 * ((H - 2) div 2) * ((W - 2) div 2)] \<and>
      forward_shape (take 5 StationsCNN) [3, H, W] = Inr [15 * ((H - 2) div 2) * ((W - 2) div 2)]) \<and>
   TrainsCNN ! 5 = Linear (15 * ((50 - 2) div 2) * ((125 - 2) div 2)) 512 \<and>
   StationsCNN ! 5 = Linear (15 * ((100 - 2) div 2) * ((100 - 2) div 2)) 512 \<and>
   15 * ((50 - 2) div 2) * ((125 - 2) div 2) = (21960 :: nat) \<and>
   15 * ((100 - 2) div 2) * ((100 - 2) div 2) = (36015 :: nat) \<and>
   StationsCNN = TrainsCNN[5 := Linear 36015 512] \<and>
   scores_shape TrainsCNN [50, 125, 3] = Inr [6] \<and>
   scores_shape StationsCNN [100, 100, 3] = Inr [6]"
proof -
  have five: "take 5 TrainsCNN = [Conv2d 3 15 3, ReLU, MaxPool2d 2, ReLU, Flatten]"
    "take 5 StationsCNN = [Conv2d 3 15 3, ReLU, MaxPool2d 2, ReLU, Flatten]"
    by (simp_all add: TrainsCNN_def StationsCNN_def)
  have a: "4 \<le> H \<and> 4 \<le> W \<longrightarrow>
      forward_shape (take 5 TrainsCNN) [3, H, W] = Inr [15 * ((H - 2) div 2) * ((W - 2) div 2)] \<and>
      forward_shape (take 5 StationsCNN) [3, H, W] = Inr [15 * ((H - 2) div 2) * ((W - 2) div 2)]"
    unfolding five using feature_extractor_shape [of H W] by blast
  have b: "TrainsCNN ! 5 = Linear (15 * ((50 - 2) div 2) * ((125 - 2) div 2)) 512"
    "StationsCNN ! 5 = Linear (15 * ((100 - 2) div 2) * ((100 - 2) div 2)) 512"
    by (simp_all add: TrainsCNN_def StationsCNN_def)
  have c: "15 * ((50 - 2) div 2) * ((125 - 2) div 2) = (21960 :: nat)"
    "15 * ((100 - 2) div 2) * ((100 - 2) div 2) = (36015 :: nat)"
    by simp_all
  have d: "StationsCNN = TrainsCNN[5 := Linear 36015 512]"
    by (simp add: TrainsCNN_def StationsCNN_def)
  have e: "scores_shape TrainsCNN [50, 125, 3] = Inr [6]"
    "scores_shape StationsCNN [100, 100, 3] = Inr [6]"
    by (simp_all add: scores_shape_def TrainsCNN_def StationsCNN_def)
  from a b c d e show ?thesis by blast
qed

theorem flattened_width_witness:
  "(4::nat) \<le> 50 \<and> (4::nat) \<le> 125 \<and>
   forward_shape (take 5 TrainsCNN) [3, 50, 125] = Inr [21960] \<and>
   forward_shape (take 5 StationsCNN) [3, 100, 100] = Inr [36015]"
  using flattened_width [of 50 125] flattened_width [of 100 100] by simp

section \<open>Properties of the training loop\<close>

lemma test_pass_fst:
  "fst (test_pass lib (self, accs, ls) batches) = foldl (batch_effect lib) self batches"
  by (induction batches arbitrary: self ls accs)
     (simp_all add: batch_effect_def Let_def split: prod.splits)

lemma batch_effect_steps:
  "(optimizer_state (batch_effect lib self b), model_params (batch_effect lib self b)) =
     adam_step lib (optimizer_state self) (model_params self) b"
  by (simp add: batch_effect_def train_batch_def accuracy_def Let_def split: prod.splits)

lemma foldl_batch_effect_steps:
  "(optimizer_state (foldl (batch_effect lib) self batches),
    model_params (foldl (batch_effect lib) self batches)) =
     gradient_steps lib (optimizer_state self, model_params self) batches"
proof (induction batches arbitrary: self)
  case Nil
  show ?case by (simp add: gradient_steps_def)
next
  case (Cons b batches)
  show ?case
    using Cons [of "batch_effect lib self b"] batch_effect_steps [of lib self b]
    by (simp add: gradient_steps_def)
qed

lemma train_loop_0: "train_loop lib self 0 trl tel clock = (self, no_results)"
  by (simp add: train_loop_def)

lemma train_loop_Suc:
  "train_loop lib self (int (Suc n)) trl tel clock =
     run_epoch lib trl tel clock (train_loop lib self (int n) trl tel clock) n"
proof -
  have "nat (int (Suc n)) = Suc n" "nat (int n) = n" by simp_all
  then show ?thesis unfolding train_loop_def by simp
qed

lemma train_loop_nat:
  "train_loop lib self num_epochs trl tel clock =
     train_loop lib self (int (nat num_epochs)) trl tel clock"
  by (simp add: train_loop_def)

lemma run_epoch_snd:
  "snd (run_epoch lib trl tel clock (self, res) e) =
     \<lparr>train_losses = train_losses res @
        [np_mean lib (fst (snd (train_pass lib (self, [], []) (trl e))))],
      train_accuracies = train_accuracies res @
        [np_mean lib (snd (snd (train_pass lib (self, [], []) (trl e))))],
      test_losses = test_losses res @
        [np_mean lib (snd (snd (test_pass lib
           (fst (train_pass lib (self, [], []) (trl e)), [], []) (tel e))))],
      test_accuracies = test_accuracies res @
        [np_mean lib (fst (snd (test_pass lib
           (fst (train_pass lib (self, [], []) (trl e)), [], []) (tel e))))],
      time_per_epoch = time_per_epoch res @ [clock (2 * e + 1) - clock (2 * e)]\<rparr>"
proof -
  obtain self1 ls accs where tp: "train_pass lib (self, [], []) (trl e) = (self1, ls, accs)"
    by (cases "train_pass lib (self, [], []) (trl e)")
  obtain self2 accs' ls' where vp: "test_pass lib (self1, [], []) (tel e) = (self2, accs', ls')"
    by (cases "test_pass lib (self1, [], []) (tel e)")
  show ?thesis
    by (simp add: run_epoch_def tp vp Let_def)
qed

lemma train_loop_results:
  "snd (train_loop lib self (int n) trl tel clock) =
     \<lparr>train_losses = map (\<lambda>e. np_mean lib (fst (snd (train_pass lib
          (epoch_start lib self trl tel clock e, [], []) (trl e))))) [0..<n],
      train_accuracies = map (\<lambda>e. np_mean lib (snd (snd (train_pass lib
          (epoch_start lib self trl tel clock e, [], []) (trl e))))) [0..<n],
      test_losses = map (\<lambda>e. np_mean lib (snd (snd (test_pass lib
          (fst (train_pass lib (epoch_start lib self trl tel clock e, [], []) (trl e)), [], [])
          (tel e))))) [0..<n],
      test_accuracies = map (\<lambda>e. np_mean lib (fst (snd (test_pass lib
          (fst (train_pass lib (epoch_start lib self trl tel clock e, [], []) (trl e)), [], [])
          (tel e))))) [0..<n],
      time_per_epoch = map (\<lambda>e. clock (2 * e + 1) - clock (2 * e)) [0..<n]\<rparr>"
proof (induction n)
  case 0
  show ?case by (simp add: train_loop_0 no_results_def)
next
  case (Suc n)
  obtain st res where l: "train_loop lib self (int n) trl tel clock = (st, res)"
    by (cases "train_loop lib self (int n) trl tel clock")
  then have st: "st = epoch_start lib self trl tel clock n"
    by (simp add: epoch_start_def)
  from Suc l have res: "res = \<lparr>train_losses = map (\<lambda>e. np_mean lib (fst (snd (train_pass lib
          (epoch_start lib self trl tel clock e, [], []) (trl e))))) [0..<n],
      train_accuracies = map (\<lambda>e. np_mean lib (snd (snd (train_pass lib
          (epoch_start lib self trl tel clock e, [], []) (trl e))))) [0..<n],
      test_losses = map (\<lambda>e. np_mean lib (snd (snd (test_pass lib
          (fst (train_pass lib (epoch_start lib self trl tel clock e, [], []) (trl e)), [], [])
          (tel e))))) [0..<n],
      test_accuracies = map (\<lambda>e. np_mean lib (fst (snd (test_pass lib
          (fst (train_pass lib (epoch_start lib self trl tel clock e, [], []) (trl e)), [], [])
          (tel e))))) [0..<n],
      time_per_epoch = map (\<lambda>e. clock (2 * e + 1) - clock (2 * e)) [0..<n]\<rparr>"
    by simp
  show ?case
    unfolding train_loop_Suc l run_epoch_snd
    by (simp add: res st)
qed

lemma plot_results_eq:
  "plot_results res =
     (if length (train_losses res) = 10 \<and> length (test_losses res) = 10 \<and>
         length (train_accuracies res) = 10 \<and> length (test_accuracies res) = 10 \<and>
         length (time_per_epoch res) = 10
      then Inr () else Inl ValueError)"
  by (simp add: plot_results_def plt_plot_def)

lemma train_loop_lengths:
  "length (train_losses (snd (train_loop lib self n trl tel clock))) = nat n \<and>
   length (train_accuracies (snd (train_loop lib self n trl tel clock))) = nat n \<and>
   length (test_losses (snd (train_loop lib self n trl tel clock))) = nat n \<and>
   length (test_accuracies (snd (train_loop lib self n trl tel clock))) = nat n \<and>
   length (time_per_epoch (snd (train_loop lib self n trl tel clock))) = nat n"
  unfolding train_loop_nat [of lib self n] train_loop_results by simp

lemma train_eq:
  "train lib self n trl tel clock =
     (if nat n = 10
      then Inr \<lparr>final_state = fst (train_loop lib self n trl tel clock),
                plotted = snd (train_loop lib self n trl tel clock),
                printed = [train_accuracies (snd (train_loop lib self n trl tel clock)),
                           test_accuracies (snd (train_loop lib self n trl tel clock))],
                returned = None\<rparr>
      else Inl ValueError)"
proof -
  obtain st res where l: "train_loop lib self n trl tel clock = (st, res)"
    by (cases "train_loop lib self n trl tel clock")
  with train_loop_lengths [of lib self n trl tel clock]
  have "plot_results res = (if nat n = 10 then Inr () else Inl ValueError)"
    by (simp add: plot_results_eq)
  then show ?thesis
    by (simp add: train_def l)
qed






text \<open>
  Claim C4 states that the pass over the test subset leaves the parameters as the train
  pass left them. The code does otherwise: the test loop obtains its loss from
  \<open>train_batch\<close>, so for every library, state and sequence of test batches the optimizer
  state and the parameters after the test pass are those reached by one gradient step per
  test batch. On the run below, with one train batch and two test batches, the weight is
  \<open>-1\<close> after the train pass and \<open>-3\<close> after the test pass, and three optimizer steps
  have been taken.
\<close>

theorem test_pass_takes_gradient_steps:
  "(optimizer_state (fst (test_pass lib (self, [], []) batches)),
    model_params (fst (test_pass lib (self, [], []) batches))) =
     gradient_steps lib (optimizer_state self, model_params self) batches \<and>
   model_params (fst (train_pass toy_torch (fresh, [], []) [1])) = - 1 \<and>
   model_params (fst (test_pass toy_torch
     (fst (train_pass toy_torch (fresh, [], []) [1]), [], []) [2, 3])) = - 3 \<and>
   optimizer_state (fst (test_pass toy_torch
     (fst (train_pass toy_torch (fresh, [], []) [1]), [], []) [2, 3])) = 3"
proof -
  have "(optimizer_state (fst (test_pass lib (self, [], []) batches)),
    model_params (fst (test_pass lib (self, [], []) batches))) =
     gradient_steps lib (optimizer_state self, model_params self) batches"
    by (simp add: test_pass_fst foldl_batch_effect_steps)
  moreover have "train_pass toy_torch (fresh, [], []) [1] =
     (\<lparr>model_params = - 1, optimizer_state = 1, training = False\<rparr>, [Finite 1 0], [Finite 1 0])"
    by code_simp
  moreover have "test_pass toy_torch
       (\<lparr>model_params = - 1, optimizer_state = 1, training = False\<rparr>, [], []) [2, 3] =
     (\<lparr>model_params = - 3, optimizer_state = 3, training = False\<rparr>,
      [Finite 1 0, Finite 1 0], [Finite 1 0, Finite 1 0])"
    by code_simp
  ultimately show ?thesis by simp
qed

text \<open>
  Claim C8, as the specification states it, fails on the code. In the run below of ten
  epochs \<open>train\<close> completes and returns \<open>None\<close>, not the records; and the wall-clock
  entry of the first epoch, the difference of two readings of \<open>time.time()\<close> between
  which the system clock was set back, is negative.
\<close>

theorem train_returns_none:
  "\<exists>out. train toy_torch fresh 10 (\<lambda>e. [1]) (\<lambda>e. [2]) (\<lambda>k. if k = 0 then 3600 else real k) = Inr out \<and>
     returned out = None \<and>
     length (time_per_epoch (plotted out)) = 10 \<and>
     hd (time_per_epoch (plotted out)) = - 3599"
proof -
  have "time_per_epoch (snd (train_loop toy_torch fresh 10 (\<lambda>e. [1]) (\<lambda>e. [2])
      (\<lambda>k. if k = 0 then 3600 else real k))) =
      map (\<lambda>e. (if 2 * e + 1 = 0 then 3600 else real (2 * e + 1)) -
                (if 2 * e = 0 then 3600 else real (2 * e))) [0..<10]"
    using train_loop_results [of toy_torch fresh 10 "\<lambda>e. [1]" "\<lambda>e. [2]"
        "\<lambda>k. if k = 0 then 3600 else real k"]
    by simp
  then have "hd (time_per_epoch (snd (train_loop toy_torch fresh 10 (\<lambda>e. [1]) (\<lambda>e. [2])
      (\<lambda>k. if k = 0 then 3600 else real k)))) = - 3599"
    by (simp add: upt_rec [of 0 "numeral _"])
  then show ?thesis
    using train_loop_lengths [of toy_torch fresh 10 "\<lambda>e. [1]" "\<lambda>e. [2]"
        "\<lambda>k. if k = 0 then 3600 else real k"]
    by (simp add: train_eq)
qed

text \<open>
  Claim C8, amended. For every \<open>num_epochs\<close> the epoch loop builds the records as five
  parallel lists of exactly \<open>num_epochs\<close> entries each, in epoch order: entry \<open>e\<close> holds
  the mean train loss, the mean train accuracy, the mean test loss and the mean test
  accuracy of the batches of epoch \<open>e\<close>, computed from the state in which that epoch
  began, and the difference \<open>end_time - start_time\<close> of the two clock readings of that
  epoch, which is positive exactly when the clock advanced. A call of \<open>train\<close> that
  completes has handed these lists to \<open>plot_results\<close>, has printed the two accuracy
  lists, and returns \<open>None\<close>.
\<close>

theorem train_records:
  "snd (train_loop lib self n trl tel clock) =
     \<lparr>train_losses = map (\<lambda>e. np_mean lib (fst (snd (train_pass lib
          (epoch_start lib self trl tel clock e, [], []) (trl e))))) [0..<nat n],
      train_accuracies = map (\<lambda>e. np_mean lib (snd (snd (train_pass lib
          (epoch_start lib self trl tel clock e, [], []) (trl e))))) [0..<nat n],
      test_losses = map (\<lambda>e. np_mean lib (snd (snd (test_pass lib
          (fst (train_pass lib (epoch_start lib self trl tel clock e, [], []) (trl e)), [], [])
          (tel e))))) [0..<nat n],
      test_accuracies = map (\<lambda>e. np_mean lib (fst (snd (test_pass lib
          (fst (train_pass lib (epoch_start lib self trl tel clock e, [], []) (trl e)), [], [])
          (tel e))))) [0..<nat n],
      time_per_epoch = map (\<lambda>e. clock (2 * e + 1) - clock (2 * e)) [0..<nat n]\<rparr> \<and>
   length (train_losses (snd (train_loop lib self n trl tel clock))) = nat n \<and>
   length (train_accuracies (snd (train_loop lib self n trl tel clock))) = nat n \<and>
   length (test_losses (snd (train_loop lib self n trl tel clock))) = nat n \<and>
   length (test_accuracies (snd (train_loop lib self n trl tel clock))) = nat n \<and>
   length (time_per_epoch (snd (train_loop lib self n trl tel clock))) = nat n \<and>
   (train lib self n trl tel clock = Inr out \<longrightarrow>
      plotted out = snd (train_loop lib self n trl tel clock) \<and>
      final_state out = fst (train_loop lib self n trl tel clock) \<and>
      printed out = [train_accuracies (plotted out), test_accuracies (plotted out)] \<and>
      returned out = None)"
proof -
  have res: "snd (train_loop lib self n trl tel clock) =
     \<lparr>train_losses = map (\<lambda>e. np_mean lib (fst (snd (train_pass lib
          (epoch_start lib self trl tel clock e, [], []) (trl e))))) [0..<nat n],
      train_accuracies = map (\<lambda>e. np_mean lib (snd (snd (train_pass lib
          (epoch_start lib self trl tel clock e, [], []) (trl e))))) [0..<nat n],
      test_losses = map (\<lambda>e. np_mean lib (snd (snd (test_pass lib
          (fst (train_pass lib (epoch_start lib self trl tel clock e, [], []) (trl e)), [], [])
          (tel e))))) [0..<nat n],
      test_accuracies = map (\<lambda>e. np_mean lib (fst (snd (test_pass lib
          (fst (train_pass lib (epoch_start lib self trl tel clock e, [], []) (trl e)), [], [])
          (tel e))))) [0..<nat n],
      time_per_epoch = map (\<lambda>e. clock (2 * e + 1) - clock (2 * e)) [0..<nat n]\<rparr>"
    unfolding train_loop_nat [of lib self n] by (rule train_loop_results)
  have out: "plotted out = snd (train_loop lib self n trl tel clock) \<and>
      final_state out = fst (train_loop lib self n trl tel clock) \<and>
      printed out = [train_accuracies (plotted out), test_accuracies (plotted out)] \<and>
      returned out = None"
    if "train lib self n trl tel clock = Inr out"
  proof (cases "nat n = 10")
    case True
    with that have "out = \<lparr>final_state = fst (train_loop lib self n trl tel clock),
                plotted = snd (train_loop lib self n trl tel clock),
                printed = [train_accuracies (snd (train_loop lib self n trl tel clock)),
                           test_accuracies (snd (train_loop lib self n trl tel clock))],
                returned = None\<rparr>"
      unfolding train_eq by simp
    then show ?thesis by simp
  next
    case False
    with that show ?thesis unfolding train_eq by simp
  qed
  from res train_loop_lengths [of lib self n trl tel clock] out show ?thesis
    by blast
qed

theorem train_records_witness:
  "\<exists>out. train toy_torch fresh 10 (\<lambda>e. [1]) (\<lambda>e. [2]) real = Inr out \<and>
     plotted out = snd (train_loop toy_torch fresh 10 (\<lambda>e. [1]) (\<lambda>e. [2]) real) \<and>
     length (train_losses (plotted out)) = 10 \<and>
     time_per_epoch (plotted out) = replicate 10 1 \<and>
     returned out = None"
proof -
  obtain out where out: "train toy_torch fresh 10 (\<lambda>e. [1]) (\<lambda>e. [2]) real = Inr out"
    by (simp add: train_eq)
  have "map (\<lambda>e. real (2 * e + 1) - real (2 * e)) [0..<nat 10] = replicate 10 1"
    by (simp add: upt_rec [of _ "numeral _"] numeral_eq_Suc)
  with train_records [of toy_torch fresh 10 "\<lambda>e. [1]" "\<lambda>e. [2]" real out] out
  show ?thesis
    by simp
qed

end
